theory Spec2Isabelle
  imports Main "HOL-Library.AList"
begin

section \<open>The authentication token (src/api/meeting.ts)\<close>

text \<open>
  The module keeps the token in the module variable \<open>authToken\<close> (initially the empty
  string) and in the browser's local storage under the key \<open>authToken\<close>.
  \<open>localStorage.getItem\<close> answers \<open>null\<close> for a missing key: the storage is a partial
  map from keys to strings.

  \<^verbatim>\<open>
  let authToken = '';
  export const setAuthToken = (token: string) => {
      authToken = token;
      localStorage.setItem('authToken', token);
  };
  export const getAuthToken = () => {
      if (!authToken) {
          authToken = localStorage.getItem('authToken') || '';
      }
      return authToken;
  };
  \<close>
\<close>

record token_store =
  authToken :: string
  localStorage :: "string \<rightharpoonup> string"

text \<open>JavaScript's \<open>x || ''\<close> on a value that is a string or \<open>null\<close>: \<open>null\<close> and the empty
  string are falsy, every other string is kept.\<close>

definition or_empty :: "string option \<Rightarrow> string" where
  "or_empty v = (case v of None \<Rightarrow> '''' | Some x \<Rightarrow> (if x = '''' then '''' else x))"

definition setAuthToken :: "string \<Rightarrow> token_store \<Rightarrow> token_store" where
  "setAuthToken token st =
     st\<lparr>authToken := token, localStorage := (localStorage st)(''authToken'' \<mapsto> token)\<rparr>"

text \<open>The getter returns the token and the store, whose in-memory token it may have filled.\<close>

definition getAuthToken :: "token_store \<Rightarrow> string \<times> token_store" where
  "getAuthToken st =
     (let st' = (if authToken st = ''''
                 then st\<lparr>authToken := or_empty (localStorage st ''authToken'')\<rparr>
                 else st)
      in (authToken st', st'))"

section \<open>The media session hook (src/hooks/useWebRTC.ts): data\<close>

text \<open>
  The hook keeps its state in React refs and state variables and talks to three
  collaborators: the signaling socket, the media engine (device, transports, producers,
  consumers) and the browser's capture devices. The model keeps every ref and state
  variable the operations below read or write in one record, and records every call to a
  collaborator, in the order the code makes it, in the field \<open>effects\<close>.

  Each operation is \<open>async\<close> in the source. The model takes the outcome of every awaited
  call (a capture request, a \<open>produce\<close> or \<open>consume\<close> call of the engine, a REST request) as
  an argument. \<open>joinMeeting\<close> is split at its two \<open>await\<close>s, so that other operations can
  run while it is suspended; every other operation and handler runs from its start to
  its end in one step. Opaque payloads (RTP and DTLS parameters, ICE candidates,
  capabilities) and the optimization profile are left out: no operation below branches
  on them.
\<close>

datatype kind = Audio | Video

datatype media_track = Track (track_id: string) (track_kind: kind)

text \<open>A \<open>MediaStream\<close> is the list of its tracks, in the order they were added.\<close>

type_synonym media_stream = "media_track list"

definition getVideoTracks :: "media_stream \<Rightarrow> media_track list" where
  "getVideoTracks st = filter (\<lambda>t. track_kind t = Video) st"

definition getAudioTracks :: "media_stream \<Rightarrow> media_track list" where
  "getAudioTracks st = filter (\<lambda>t. track_kind t = Audio) st"

text \<open>\<open>addTrack\<close> does nothing when the track is already in the stream.\<close>

definition addTrack :: "media_track \<Rightarrow> media_stream \<Rightarrow> media_stream" where
  "addTrack t st = (if t \<in> set st then st else st @ [t])"

text \<open>\<open>xs[0]\<close>, which is \<open>undefined\<close> on an empty array.\<close>

definition first_track :: "media_track list \<Rightarrow> media_track option" where
  "first_track ts = (case ts of [] \<Rightarrow> None | t # _ \<Rightarrow> Some t)"

text \<open>
  A JavaScript error: its \<open>name\<close> and its message. \<open>String(err)\<close> and \<open>${err}\<close> give the
  name alone for an empty message, the message alone for an empty name, and otherwise
  the name, a colon, a space and the message.
\<close>

datatype js_error = JsError (err_name: string) (err_message: string)

definition err_string :: "js_error \<Rightarrow> string" where
  "err_string e =
     (if err_message e = '''' then err_name e
      else if err_name e = '''' then err_message e
      else err_name e @ '': '' @ err_message e)"

text \<open>The optional \<open>appData\<close> object \<open>{ type?: string }\<close>.\<close>

datatype app_data = AppData (ad_type: "string option")

datatype producer =
  Producer (producer_id: string) (producer_track: media_track) (producer_appData: "app_data option")

datatype consumer =
  Consumer (consumer_id: string) (consumer_producerId: string) (consumer_track: media_track)

text \<open>The per-participant streams of \<open>remoteStreamsRef\<close>.\<close>

record stream_bundle =
  camera :: "media_stream option"
  screen :: "media_stream option"
  audio :: "media_stream option"

text \<open>\<open>RemoteParticipant\<close>.\<close>

record participant =
  odId :: string
  userName :: string
  cameraStream :: "media_stream option"
  screenStream :: "media_stream option"
  audioStream :: "media_stream option"
  updateTs :: nat

text \<open>An entry of the \<open>existingProducers\<close> list of \<open>meeting-joined\<close>.\<close>

record pending_producer =
  pp_participantId :: string
  pp_producerId :: string
  pp_kind :: kind

text \<open>The messages the hook emits on the socket (client to server).\<close>

datatype message =
    JoinMeetingMsg string
  | CreateTransportMsg string string
  | ConnectTransportMsg string
  | ProduceMsg string kind string "app_data option"
  | ConsumeMsg string string string kind "app_data option"
  | ResumeConsumerMsg string
  | CloseProducerMsg string string kind "app_data option"

text \<open>
  The calls to the collaborators: \<open>io(url)\<close>, which opens a socket, \<open>socket.emit\<close>,
  \<open>device.createSendTransport\<close> and \<open>device.createRecvTransport\<close> (when they return a
  transport), \<open>sendTransport.produce\<close>, \<open>recvTransport.consume\<close> (with the consumer and the
  producer identifier), \<open>producer.close\<close>, \<open>consumer.close\<close>, \<open>consumer.resume\<close>,
  \<open>transport.close\<close>, \<open>track.stop\<close>, \<open>socket.disconnect\<close>, and the completion callbacks of
  the two negotiations.
\<close>

datatype effect =
    SocketOpen string
  | Emit message
  | CreateSendTransport string
  | CreateRecvTransport string
  | TransportProduce media_track "app_data option"
  | TransportConsume string string
  | ProducerClose string
  | ConsumerClose string
  | ConsumerResume string
  | TransportClose string
  | TrackStop media_track
  | SocketDisconnect
  | ConnectCallback string
  | ProduceCallback string string

datatype status = Disconnected | Connecting | Connected | Fallback

text \<open>
  The refs and state variables of the hook. A JavaScript \<open>Map\<close> that the code iterates
  (\<open>producersRef\<close>, \<open>consumersRef\<close>) is an association list in insertion order; the others
  are maps. \<open>pendingProducers\<close> is the local variable of \<open>joinMeeting\<close> that its handlers
  share. \<open>connectListeners\<close> and \<open>producedListeners\<close> are the listeners that the negotiation
  callbacks have registered on the socket for \<open>transport-connected\<close> and \<open>produced\<close>, each
  named by the transport identifier or request identifier it waits for.
\<close>

record hook_state =
  socketRef :: "string option"
  deviceRef :: "string option"
  localStreamRef :: "media_stream option"
  screenStreamRef :: "media_stream option"
  sendTransportRef :: "string option"
  recvTransportRef :: "string option"
  producersRef :: "(string \<times> producer) list"
  consumersRef :: "(string \<times> consumer) list"
  consumedProducersRef :: "string set"
  producerAppDataRef :: "string \<rightharpoonup> app_data"
  remoteStreamsRef :: "string \<rightharpoonup> stream_bundle"
  remoteParticipants :: "string \<rightharpoonup> participant"
  pendingProducers :: "pending_producer list"
  connectListeners :: "string list"
  producedListeners :: "string list"
  isConnected :: bool
  isAudioEnabled :: bool
  isVideoEnabled :: bool
  isScreenSharing :: bool
  connectionStatus :: status
  error :: "string option"
  effects :: "effect list"

text \<open>The state of a freshly mounted hook.\<close>

definition initial_hook :: hook_state where
  "initial_hook =
     \<lparr>socketRef = None, deviceRef = None, localStreamRef = None, screenStreamRef = None,
      sendTransportRef = None, recvTransportRef = None, producersRef = [], consumersRef = [],
      consumedProducersRef = {}, producerAppDataRef = Map.empty, remoteStreamsRef = Map.empty,
      remoteParticipants = Map.empty, pendingProducers = [], connectListeners = [],
      producedListeners = [], isConnected = False, isAudioEnabled = False,
      isVideoEnabled = False, isScreenSharing = False, connectionStatus = Disconnected,
      error = None, effects = []\<rparr>"

section \<open>Publishing and unpublishing local tracks\<close>

text \<open>
  The block every publishing operation repeats:
  \<^verbatim>\<open>
  try {
      const producer = await sendTransportRef.current.produce({ track, appData });
      producersRef.current.set(key, producer);
  } catch (err) { console.error(...); }
  \<close>
  \<open>outcome\<close> is the identifier of the producer the engine created, or \<open>None\<close> when the
  call rejects. \<open>Map.set\<close> replaces the value of a key that is present and appends a new
  key otherwise, which is \<open>AList.update\<close>.
\<close>

definition produce_and_store ::
  "string \<Rightarrow> media_track \<Rightarrow> app_data option \<Rightarrow> string option \<Rightarrow> hook_state \<Rightarrow> hook_state" where
  "produce_and_store key track appData outcome s =
     (let s1 = s\<lparr>effects := effects s @ [TransportProduce track appData]\<rparr>
      in case outcome of
           None \<Rightarrow> s1
         | Some pid \<Rightarrow>
             s1\<lparr>producersRef := AList.update key (Producer pid track appData) (producersRef s1)\<rparr>)"

text \<open>
  \<open>startCamera\<close>. \<open>meeting\<close> is the identifier of the hook's meeting, if it has one;
  \<open>captured\<close> is the answer of \<open>getUserMedia\<close>. Adding \<open>undefined\<close> to a stream throws a
  \<open>TypeError\<close>, which the outer \<open>catch\<close> reports like a capture error.
\<close>

definition startCamera ::
  "string option \<Rightarrow> js_error + media_stream \<Rightarrow> string option \<Rightarrow> hook_state \<Rightarrow> hook_state" where
  "startCamera meeting captured outcome s =
     (case captured of
        Inl err \<Rightarrow> s\<lparr>error := Some (''Camera error: '' @ err_string err)\<rparr>
      | Inr stream \<Rightarrow>
          (case (case localStreamRef s of
                   Some ls \<Rightarrow>
                     (case first_track (getVideoTracks stream) of
                        None \<Rightarrow> Inl (JsError ''TypeError'' ''parameter 1 is not of type MediaStreamTrack'')
                      | Some videoTrack \<Rightarrow> Inr (addTrack videoTrack ls))
                 | None \<Rightarrow> Inr stream) of
             Inl err \<Rightarrow> s\<lparr>error := Some (''Camera error: '' @ err_string err)\<rparr>
           | Inr ls' \<Rightarrow>
               (let s1 = s\<lparr>localStreamRef := Some ls', isVideoEnabled := True\<rparr>
                in if sendTransportRef s1 \<noteq> None \<and> meeting \<noteq> None
                   then (case first_track (getVideoTracks ls') of
                           None \<Rightarrow> s1
                         | Some track \<Rightarrow> produce_and_store ''video'' track None outcome s1)
                   else s1)))"

definition startMicrophone ::
  "string option \<Rightarrow> js_error + media_stream \<Rightarrow> string option \<Rightarrow> hook_state \<Rightarrow> hook_state" where
  "startMicrophone meeting captured outcome s =
     (case captured of
        Inl err \<Rightarrow> s\<lparr>error := Some (''Microphone error: '' @ err_string err)\<rparr>
      | Inr stream \<Rightarrow>
          (case (case localStreamRef s of
                   Some ls \<Rightarrow>
                     (case first_track (getAudioTracks stream) of
                        None \<Rightarrow> Inl (JsError ''TypeError'' ''parameter 1 is not of type MediaStreamTrack'')
                      | Some audioTrack \<Rightarrow> Inr (addTrack audioTrack ls))
                 | None \<Rightarrow> Inr stream) of
             Inl err \<Rightarrow> s\<lparr>error := Some (''Microphone error: '' @ err_string err)\<rparr>
           | Inr ls' \<Rightarrow>
               (let s1 = s\<lparr>localStreamRef := Some ls', isAudioEnabled := True\<rparr>
                in if sendTransportRef s1 \<noteq> None \<and> meeting \<noteq> None
                   then (case first_track (getAudioTracks ls') of
                           None \<Rightarrow> s1
                         | Some track \<Rightarrow> produce_and_store ''audio'' track None outcome s1)
                   else s1)))"

text \<open>
  The block the unpublishing operations repeat: when the slot holds a producer and there
  is a socket and a meeting, send \<open>close-producer\<close>, close the producer and free the slot.
\<close>

definition close_and_notify ::
  "string option \<Rightarrow> string \<Rightarrow> kind \<Rightarrow> app_data option \<Rightarrow> hook_state \<Rightarrow> hook_state" where
  "close_and_notify meeting key k appData s =
     (case map_of (producersRef s) key of
        None \<Rightarrow> s
      | Some p \<Rightarrow>
          (case meeting of
             None \<Rightarrow> s
           | Some mid \<Rightarrow>
               if socketRef s = None then s
               else s\<lparr>effects := effects s @
                         [Emit (CloseProducerMsg mid (producer_id p) k appData),
                          ProducerClose (producer_id p)],
                       producersRef := AList.delete key (producersRef s)\<rparr>))"

definition stopCamera :: "string option \<Rightarrow> hook_state \<Rightarrow> hook_state" where
  "stopCamera meeting s =
     (let s1 = (case localStreamRef s of
                  None \<Rightarrow> s
                | Some ls \<Rightarrow>
                    s\<lparr>effects := effects s @ map TrackStop (getVideoTracks ls),
                      localStreamRef := Some (filter (\<lambda>t. track_kind t \<noteq> Video) ls),
                      isVideoEnabled := False\<rparr>)
      in close_and_notify meeting ''video'' Video None s1)"

definition stopMicrophone :: "string option \<Rightarrow> hook_state \<Rightarrow> hook_state" where
  "stopMicrophone meeting s =
     (let s1 = (case localStreamRef s of
                  None \<Rightarrow> s
                | Some ls \<Rightarrow>
                    s\<lparr>effects := effects s @ map TrackStop (getAudioTracks ls),
                      localStreamRef := Some (filter (\<lambda>t. track_kind t \<noteq> Audio) ls),
                      isAudioEnabled := False\<rparr>)
      in close_and_notify meeting ''audio'' Audio None s1)"

text \<open>
  \<open>startScreenShare\<close>. \<open>captured\<close> is the answer of \<open>getDisplayMedia\<close>; a
  \<open>NotAllowedError\<close> (the user cancelled) is only logged. A captured stream without a video
  track makes the assignment to \<open>onended\<close> throw after the stream has been stored.
\<close>

definition startScreenShare ::
  "string option \<Rightarrow> js_error + media_stream \<Rightarrow> string option \<Rightarrow> string option \<Rightarrow>
   hook_state \<Rightarrow> hook_state" where
  "startScreenShare meeting captured outcomeVideo outcomeAudio s =
     (case captured of
        Inl err \<Rightarrow>
          (if err_name err = ''NotAllowedError'' then s
           else s\<lparr>error := Some (''Screen share error: '' @ err_string err)\<rparr>)
      | Inr stream \<Rightarrow>
          (let s1 = s\<lparr>screenStreamRef := Some stream, isScreenSharing := True\<rparr>
           in case first_track (getVideoTracks stream) of
                None \<Rightarrow>
                  s1\<lparr>error := Some (''Screen share error: '' @
                        err_string (JsError ''TypeError'' ''Cannot set properties of undefined''))\<rparr>
              | Some videoTrack \<Rightarrow>
                  if sendTransportRef s1 \<noteq> None \<and> meeting \<noteq> None
                  then (let s2 = produce_and_store ''screen'' videoTrack
                                   (Some (AppData (Some ''screen''))) outcomeVideo s1
                        in case first_track (getAudioTracks stream) of
                             None \<Rightarrow> s2
                           | Some audioTrack \<Rightarrow>
                               produce_and_store ''screenAudio'' audioTrack
                                 (Some (AppData (Some ''screenAudio''))) outcomeAudio s2)
                  else s1))"

definition stopScreenShare :: "string option \<Rightarrow> hook_state \<Rightarrow> hook_state" where
  "stopScreenShare meeting s =
     (let s1 = (case screenStreamRef s of
                  None \<Rightarrow> s
                | Some st \<Rightarrow>
                    s\<lparr>effects := effects s @ map TrackStop st,
                      screenStreamRef := None,
                      isScreenSharing := False\<rparr>);
          s2 = close_and_notify meeting ''screen'' Video (Some (AppData (Some ''screen''))) s1
      in close_and_notify meeting ''screenAudio'' Audio (Some (AppData (Some ''screenAudio''))) s2)"

text \<open>
  \<open>leaveMeeting\<close>: close every consumer and producer of the two registries and clear them,
  clear the consumed set and the remote streams, close and forget both transports, stop
  and forget both capture streams, disconnect and forget the socket, forget the device and
  reset the state variables. The optional calls (\<open>?.\<close>) are skipped on \<open>null\<close>. It
  reaches what the refs hold when it is called: it has no handle on a transport, producer
  or consumer that a later one has replaced in its ref or registry, nor on a
  \<open>joinMeeting\<close> that is suspended at an \<open>await\<close>.
\<close>

definition leaveMeeting :: "hook_state \<Rightarrow> hook_state" where
  "leaveMeeting s =
     s\<lparr>effects := effects s
          @ map (\<lambda>(k, c). ConsumerClose (consumer_id c)) (consumersRef s)
          @ map (\<lambda>(k, p). ProducerClose (producer_id p)) (producersRef s)
          @ (case sendTransportRef s of None \<Rightarrow> [] | Some t \<Rightarrow> [TransportClose t])
          @ (case recvTransportRef s of None \<Rightarrow> [] | Some t \<Rightarrow> [TransportClose t])
          @ (case localStreamRef s of None \<Rightarrow> [] | Some st \<Rightarrow> map TrackStop st)
          @ (case screenStreamRef s of None \<Rightarrow> [] | Some st \<Rightarrow> map TrackStop st)
          @ (case socketRef s of None \<Rightarrow> [] | Some url \<Rightarrow> [SocketDisconnect]),
       consumersRef := [],
       producersRef := [],
       consumedProducersRef := {},
       remoteStreamsRef := Map.empty,
       sendTransportRef := None,
       recvTransportRef := None,
       localStreamRef := None,
       screenStreamRef := None,
       socketRef := None,
       deviceRef := None,
       isConnected := False,
       isVideoEnabled := False,
       isAudioEnabled := False,
       isScreenSharing := False,
       connectionStatus := Disconnected,
       remoteParticipants := Map.empty\<rparr>"

section \<open>Joining\<close>

text \<open>The \<open>data\<close> of \<open>getWebRTCConfig\<close>; the capabilities are opaque.\<close>

record webrtc_config =
  rtpCapabilities :: "string option"
  routerError :: "string option"

text \<open>The answer \<open>{ success, data?, error? }\<close> of \<open>getWebRTCConfig\<close>.\<close>

record config_response =
  cr_success :: bool
  cr_data :: "webrtc_config option"
  cr_error :: "string option"

definition SOCKET_URL :: string where
  "SOCKET_URL = ''https://devws.letscatchup-kcs.com''"

text \<open>\<open>text || fallback\<close> on a string or \<open>undefined\<close>.\<close>

definition or_else :: "string option \<Rightarrow> string \<Rightarrow> string" where
  "or_else v fallback =
     (case v of None \<Rightarrow> fallback | Some x \<Rightarrow> (if x = '''' then fallback else x))"

text \<open>
  \<open>joinMeeting\<close> is suspended at two points before it creates the socket: at
  \<open>await getWebRTCConfig\<close> and at \<open>await device.load\<close>. Any other operation of the hook,
  \<open>leaveMeeting\<close> included, can run while it is suspended, and nothing cancels it: its
  continuation runs on the state it finds. The three functions below are the three
  stretches of the function between these points.

  The first stretch: without a meeting the hook reports an error and the function
  returns; otherwise the status is \<open>connecting\<close> and the configuration is requested.
\<close>

definition joinMeeting_begin :: "string option \<Rightarrow> hook_state \<Rightarrow> hook_state" where
  "joinMeeting_begin meeting s =
     (case meeting of
        None \<Rightarrow> s\<lparr>error := Some ''No meeting selected''\<rparr>
      | Some mid \<Rightarrow> s\<lparr>connectionStatus := Connecting, error := None\<rparr>)"

text \<open>
  The second stretch, from the answer \<open>configResponse\<close> of \<open>getWebRTCConfig\<close>. A failed
  request throws into the \<open>catch\<close>, which reports the error and falls back; a router
  error or missing capabilities fall back without an error. Otherwise the function goes
  on to load the device with the capabilities, which are the second component of the
  result.
\<close>

definition joinMeeting_configured :: "config_response \<Rightarrow> hook_state \<Rightarrow> hook_state \<times> string option" where
  "joinMeeting_configured configResponse s =
     (case (if cr_success configResponse then cr_data configResponse else None) of
        None \<Rightarrow>
          (s\<lparr>error := Some (err_string (JsError ''Error''
                          (or_else (cr_error configResponse) ''Failed to get WebRTC config''))),
             connectionStatus := Fallback\<rparr>, None)
      | Some config \<Rightarrow>
          if or_else (routerError config) '''' \<noteq> '''' \<or> rtpCapabilities config = None
          then (s\<lparr>connectionStatus := Fallback\<rparr>, None)
          else (s, rtpCapabilities config))"

text \<open>
  The third stretch, from the end of \<open>device.load\<close>; \<open>loadError\<close> is its error, if it
  throws. The device is stored, the socket is opened and stored, and the handlers of
  the next section are registered on it, with a fresh \<open>pendingProducers\<close> and no listener
  for an acknowledgment. (The state has one \<open>pendingProducers\<close> and one set of listeners:
  it follows the handlers of the most recent socket.) Nothing is emitted before an
  event arrives.
\<close>

definition joinMeeting_loaded :: "string \<Rightarrow> js_error option \<Rightarrow> hook_state \<Rightarrow> hook_state" where
  "joinMeeting_loaded capabilities loadError s =
     (case loadError of
        Some err \<Rightarrow> s\<lparr>error := Some (err_string err), connectionStatus := Fallback\<rparr>
      | None \<Rightarrow>
          s\<lparr>deviceRef := Some capabilities,
            socketRef := Some SOCKET_URL,
            pendingProducers := [],
            connectListeners := [],
            producedListeners := [],
            effects := effects s @ [SocketOpen SOCKET_URL]\<rparr>)"

text \<open>\<open>joinMeeting\<close> when nothing else runs while it is suspended.\<close>

definition joinMeeting ::
  "string option \<Rightarrow> config_response \<Rightarrow> js_error option \<Rightarrow> hook_state \<Rightarrow> hook_state" where
  "joinMeeting meeting configResponse loadError s =
     (case meeting of
        None \<Rightarrow> joinMeeting_begin meeting s
      | Some mid \<Rightarrow>
          (let configured = joinMeeting_configured configResponse (joinMeeting_begin meeting s)
           in case snd configured of
                None \<Rightarrow> fst configured
              | Some capabilities \<Rightarrow> joinMeeting_loaded capabilities loadError (fst configured)))"

section \<open>The socket handlers that \<open>joinMeeting\<close> registers\<close>

text \<open>
  Every handler below is the body of one \<open>socket.on\<close> of \<open>joinMeeting\<close>. \<open>mid\<close> is
  \<open>meeting.id\<close> of the meeting the hook joined.

  \<open>connect\<close> emits \<open>join-meeting\<close>; \<open>connect_error\<close> reports the error and falls back.
  \<open>meeting-joined\<close>: mark the hook connected, keep a non-empty list of existing producers
  for later and ask for both transports.
\<close>

definition on_connect :: "string \<Rightarrow> hook_state \<Rightarrow> hook_state" where
  "on_connect mid s = s\<lparr>effects := effects s @ [Emit (JoinMeetingMsg mid)]\<rparr>"

definition on_connect_error :: "js_error \<Rightarrow> hook_state \<Rightarrow> hook_state" where
  "on_connect_error err s =
     s\<lparr>error := Some (''Socket connection failed: '' @ err_message err),
       connectionStatus := Fallback\<rparr>"

definition on_meeting_joined :: "string \<Rightarrow> pending_producer list \<Rightarrow> hook_state \<Rightarrow> hook_state" where
  "on_meeting_joined mid existingProducers s =
     (let s1 = s\<lparr>isConnected := True, connectionStatus := Connected\<rparr>;
          s2 = (if existingProducers \<noteq> [] then s1\<lparr>pendingProducers := existingProducers\<rparr>
                else s1)
      in s2\<lparr>effects := effects s2 @
                [Emit (CreateTransportMsg mid ''send''), Emit (CreateTransportMsg mid ''recv'')]\<rparr>)"

text \<open>
  \<open>transport-created\<close>. \<open>created\<close> says whether the device could build the transport; when
  it throws, the handler ends before it has changed anything. The direction \<open>send\<close> stores
  the send transport; every other direction stores the receive transport and then requests
  the consumption of the pending producers, without marking them consumed. The new
  transport replaces the one the ref held, which is not closed.
\<close>

definition on_transport_created ::
  "string \<Rightarrow> string \<Rightarrow> string \<Rightarrow> bool \<Rightarrow> hook_state \<Rightarrow> hook_state" where
  "on_transport_created mid direction tid created s =
     (if \<not> created then s
      else if direction = ''send''
      then s\<lparr>sendTransportRef := Some tid, effects := effects s @ [CreateSendTransport tid]\<rparr>
      else (let s1 = s\<lparr>recvTransportRef := Some tid,
                       effects := effects s @ [CreateRecvTransport tid]\<rparr>
            in if pendingProducers s1 \<noteq> [] \<and> deviceRef s1 \<noteq> None
               then s1\<lparr>effects := effects s1 @
                          map (\<lambda>p. Emit (ConsumeMsg mid (pp_participantId p) (pp_producerId p)
                                            (pp_kind p) None))
                              (pendingProducers s1),
                        pendingProducers := []\<rparr>
               else s1))"

text \<open>The payload of \<open>new-producer\<close> and of \<open>producer-closed\<close>.\<close>

record producer_ref =
  participantId :: string
  producerId :: string
  ref_kind :: kind
  appData :: "app_data option"

text \<open>
  \<open>new-producer\<close>: skip a producer that is already in the consumed set; give up when the
  receive transport or the device is missing; otherwise remember the producer's
  \<open>appData\<close>, add the producer to the consumed set and then emit \<open>consume\<close>.
\<close>

definition on_new_producer :: "string \<Rightarrow> producer_ref \<Rightarrow> hook_state \<Rightarrow> hook_state" where
  "on_new_producer mid d s =
     (if producerId d \<in> consumedProducersRef s then s
      else if recvTransportRef s = None \<or> deviceRef s = None then s
      else (let s1 = (case appData d of
                        None \<Rightarrow> s
                      | Some a \<Rightarrow> s\<lparr>producerAppDataRef := (producerAppDataRef s)(producerId d \<mapsto> a)\<rparr>);
                s2 = s1\<lparr>consumedProducersRef := insert (producerId d) (consumedProducersRef s1)\<rparr>
            in s2\<lparr>effects := effects s2 @
                      [Emit (ConsumeMsg mid (participantId d) (producerId d) (ref_kind d)
                               (appData d))]\<rparr>))"

text \<open>The payload of \<open>consumed\<close>.\<close>

record consumed_data =
  cd_id :: string
  cd_producerId :: string
  cd_kind :: kind
  cd_producerParticipantId :: string
  cd_appData :: "app_data option"

text \<open>\<open>data.appData || storedAppData\<close>: an object is truthy even without a \<open>type\<close>.\<close>

definition resolve_appData :: "app_data option \<Rightarrow> app_data option \<Rightarrow> app_data option" where
  "resolve_appData given stored = (case given of Some a \<Rightarrow> Some a | None \<Rightarrow> stored)"

text \<open>\<open>appData?.type === tag\<close>.\<close>

definition has_type :: "string \<Rightarrow> app_data option \<Rightarrow> bool" where
  "has_type tag a = (case a of None \<Rightarrow> False | Some d \<Rightarrow> ad_type d = Some tag)"

text \<open>\<open>if (!slot) slot = new MediaStream(); slot.addTrack(track)\<close>.\<close>

definition add_to_slot :: "media_track \<Rightarrow> media_stream option \<Rightarrow> media_stream option" where
  "add_to_slot t slot = Some (addTrack t (case slot of None \<Rightarrow> [] | Some st \<Rightarrow> st))"

text \<open>\<open>existing?.userName || 'Participant'\<close>.\<close>

definition name_or_default :: "participant option \<Rightarrow> string" where
  "name_or_default existing =
     (case existing of
        None \<Rightarrow> ''Participant''
      | Some e \<Rightarrow> (if userName e = '''' then ''Participant'' else userName e))"

text \<open>
  \<open>consumed\<close>. \<open>now\<close> is \<open>Date.now()\<close>; \<open>consumeResult\<close> is the track of the consumer the
  receive transport created, or \<open>None\<close> when \<open>consume\<close> throws; \<open>resumed\<close> says whether
  \<open>consumer.resume()\<close> succeeded. Every exception ends the handler where it is thrown (the
  \<open>catch\<close> only logs). The track goes to the screen slot for a video with the type
  \<open>screen\<close>, to the camera slot for every other video and to the audio slot for audio.
\<close>

definition on_consumed ::
  "nat \<Rightarrow> consumed_data \<Rightarrow> media_track option \<Rightarrow> bool \<Rightarrow> hook_state \<Rightarrow> hook_state" where
  "on_consumed now d consumeResult resumed s =
     (if recvTransportRef s = None then s
      else case consumeResult of
        None \<Rightarrow> s\<lparr>effects := effects s @ [TransportConsume (cd_id d) (cd_producerId d)]\<rparr>
      | Some track \<Rightarrow>
          (let s1 = s\<lparr>consumersRef :=
                         AList.update (cd_id d) (Consumer (cd_id d) (cd_producerId d) track)
                           (consumersRef s),
                       effects := effects s @
                         [TransportConsume (cd_id d) (cd_producerId d),
                          Emit (ResumeConsumerMsg (cd_id d)), ConsumerResume (cd_id d)]\<rparr>
           in if \<not> resumed then s1
              else (let pid = cd_producerParticipantId d;
                        a = resolve_appData (cd_appData d) (producerAppDataRef s1 (cd_producerId d));
                        isScreen = has_type ''screen'' a;
                        streams = (case remoteStreamsRef s1 pid of
                                     None \<Rightarrow> \<lparr>camera = None, screen = None, audio = None\<rparr>
                                   | Some b \<Rightarrow> b);
                        streams' = (case cd_kind d of
                                      Video \<Rightarrow>
                                        (if isScreen
                                         then streams\<lparr>screen := add_to_slot track (screen streams)\<rparr>
                                         else streams\<lparr>camera := add_to_slot track (camera streams)\<rparr>)
                                    | Audio \<Rightarrow> streams\<lparr>audio := add_to_slot track (audio streams)\<rparr>)
                    in s1\<lparr>remoteStreamsRef := (remoteStreamsRef s1)(pid \<mapsto> streams'),
                          remoteParticipants := (remoteParticipants s1)(pid \<mapsto>
                            \<lparr>odId = pid,
                             userName = name_or_default (remoteParticipants s1 pid),
                             cameraStream = camera streams',
                             screenStream = screen streams',
                             audioStream = audio streams',
                             updateTs = now\<rparr>)\<rparr>)))"

text \<open>\<open>participant-left\<close>: forget the participant and the participant's streams.\<close>

definition on_participant_left :: "string \<Rightarrow> hook_state \<Rightarrow> hook_state" where
  "on_participant_left pid s =
     s\<lparr>remoteParticipants := (remoteParticipants s)(pid := None),
       remoteStreamsRef := (remoteStreamsRef s)(pid := None)\<rparr>"

text \<open>
  The loop of \<open>producer-closed\<close> over the consumers: close and delete the first consumer, in
  insertion order, of the closed producer.
\<close>

definition close_consumer_of :: "string \<Rightarrow> hook_state \<Rightarrow> hook_state" where
  "close_consumer_of prodId s =
     (case List.find (\<lambda>(k, c). consumer_producerId c = prodId) (consumersRef s) of
        None \<Rightarrow> s
      | Some (k, c) \<Rightarrow>
          s\<lparr>effects := effects s @ [ConsumerClose (consumer_id c)],
            consumersRef := AList.delete k (consumersRef s)\<rparr>)"

text \<open>
  The slot updates of \<open>producer-closed\<close>: the streams after the event, and the tracks it
  stops. A video event of a screen producer empties the screen slot if it is populated;
  a video event of any other producer empties the camera slot if it is populated; an audio
  event empties the audio slot if it is populated.
\<close>

definition clear_slot :: "kind \<Rightarrow> bool \<Rightarrow> stream_bundle \<Rightarrow> stream_bundle \<times> media_track list" where
  "clear_slot k isScreen streams =
     (case k of
        Video \<Rightarrow>
          (if isScreen then
             (case screen streams of
                Some st \<Rightarrow> (streams\<lparr>screen := None\<rparr>, st)
              | None \<Rightarrow> (streams, []))
           else
             (case camera streams of
                Some st \<Rightarrow> (streams\<lparr>camera := None\<rparr>, st)
              | None \<Rightarrow> (streams, [])))
      | Audio \<Rightarrow>
          (case audio streams of
             Some st \<Rightarrow> (streams\<lparr>audio := None\<rparr>, st)
           | None \<Rightarrow> (streams, [])))"

text \<open>
  \<open>producer-closed\<close>: take the producer out of the consumed set, resolve and forget its
  \<open>appData\<close>, close its consumer, and, when the participant has streams, clear the slot
  and refresh an existing participant entry from the streams. No branch deletes an entry
  of \<open>remoteStreamsRef\<close> or of \<open>remoteParticipants\<close>.
\<close>

definition on_producer_closed :: "nat \<Rightarrow> producer_ref \<Rightarrow> hook_state \<Rightarrow> hook_state" where
  "on_producer_closed now d s =
     (let s1 = s\<lparr>consumedProducersRef := consumedProducersRef s - {producerId d}\<rparr>;
          a = resolve_appData (appData d) (producerAppDataRef s1 (producerId d));
          isScreen = has_type ''screen'' a;
          s2 = s1\<lparr>producerAppDataRef := (producerAppDataRef s1)(producerId d := None)\<rparr>;
          s3 = close_consumer_of (producerId d) s2
      in case remoteStreamsRef s3 (participantId d) of
           None \<Rightarrow> s3
         | Some streams \<Rightarrow>
             (let cleared = clear_slot (ref_kind d) isScreen streams;
                  streams' = fst cleared;
                  s4 = s3\<lparr>effects := effects s3 @ map TrackStop (snd cleared),
                          remoteStreamsRef := (remoteStreamsRef s3)(participantId d \<mapsto> streams')\<rparr>
              in case remoteParticipants s4 (participantId d) of
                   None \<Rightarrow> s4
                 | Some existing \<Rightarrow>
                     s4\<lparr>remoteParticipants := (remoteParticipants s4)(participantId d \<mapsto>
                          existing\<lparr>cameraStream := camera streams',
                                   screenStream := screen streams',
                                   audioStream := audio streams',
                                   updateTs := now\<rparr>)\<rparr>))"

text \<open>\<open>disconnect\<close>.\<close>

definition on_disconnect :: "hook_state \<Rightarrow> hook_state" where
  "on_disconnect s = s\<lparr>isConnected := False, connectionStatus := Disconnected\<rparr>"

section \<open>The negotiation callbacks of the transports\<close>

text \<open>
  The engine calls the \<open>connect\<close> handler of a transport with a completion callback. The
  handler emits \<open>connect-transport\<close> and registers a listener for \<open>transport-connected\<close>
  that waits for the identifier of this transport.
\<close>

definition on_transport_connect :: "string \<Rightarrow> hook_state \<Rightarrow> hook_state" where
  "on_transport_connect tid s =
     s\<lparr>effects := effects s @ [Emit (ConnectTransportMsg tid)],
       connectListeners := connectListeners s @ [tid]\<rparr>"

text \<open>
  \<open>transport-connected\<close>: the socket calls every registered listener with the response. A
  listener whose transport identifier equals the one of the response removes itself and
  calls its callback; every other listener does nothing.
\<close>

definition on_transport_connected :: "string \<Rightarrow> hook_state \<Rightarrow> hook_state" where
  "on_transport_connected transportId s =
     s\<lparr>effects := effects s @
          map ConnectCallback (filter (\<lambda>t. t = transportId) (connectListeners s)),
       connectListeners := filter (\<lambda>t. t \<noteq> transportId) (connectListeners s)\<rparr>"

text \<open>
  The \<open>produce\<close> handler of the send transport: \<open>requestId\<close> is the identifier the handler
  generates from the clock and a random number. It emits \<open>produce\<close> and registers a
  listener for \<open>produced\<close>.
\<close>

definition on_transport_produce ::
  "string \<Rightarrow> kind \<Rightarrow> app_data option \<Rightarrow> string \<Rightarrow> hook_state \<Rightarrow> hook_state" where
  "on_transport_produce mid k a requestId s =
     s\<lparr>effects := effects s @ [Emit (ProduceMsg mid k requestId a)],
       producedListeners := producedListeners s @ [requestId]\<rparr>"

text \<open>
  \<open>!response.requestId || response.requestId === requestId\<close>: a response without a request
  identifier, or with the empty one, is accepted by every listener.
\<close>

definition accepts :: "string option \<Rightarrow> string \<Rightarrow> bool" where
  "accepts responseRequestId requestId =
     (case responseRequestId of
        None \<Rightarrow> True
      | Some r \<Rightarrow> r = '''' \<or> r = requestId)"

text \<open>
  \<open>produced\<close>: every listener that accepts the response removes itself and calls its
  callback with the producer identifier of the response.
\<close>

definition on_produced :: "string \<Rightarrow> string option \<Rightarrow> hook_state \<Rightarrow> hook_state" where
  "on_produced respProducerId respRequestId s =
     s\<lparr>effects := effects s @
          map (\<lambda>r. ProduceCallback r respProducerId)
              (filter (accepts respRequestId) (producedListeners s)),
       producedListeners := filter (\<lambda>r. \<not> accepts respRequestId r) (producedListeners s)\<rparr>"

text \<open>The timeout of a \<open>produce\<close> negotiation removes its listener after ten seconds.\<close>

definition on_produce_timeout :: "string \<Rightarrow> hook_state \<Rightarrow> hook_state" where
  "on_produce_timeout requestId s = s\<lparr>producedListeners := remove1 requestId (producedListeners s)\<rparr>"

section \<open>Runs of socket events\<close>

datatype event =
    Connect
  | ConnectError js_error
  | MeetingJoined "pending_producer list"
  | TransportCreated string string bool
  | NewProducer producer_ref
  | ConsumedEv nat consumed_data "media_track option" bool
  | ParticipantLeft string
  | ProducerClosed nat producer_ref
  | TransportConnected string
  | Produced string "string option"
  | DisconnectEv

fun handle :: "string \<Rightarrow> event \<Rightarrow> hook_state \<Rightarrow> hook_state" where
  "handle mid Connect s = on_connect mid s"
| "handle mid (ConnectError err) s = on_connect_error err s"
| "handle mid (MeetingJoined ps) s = on_meeting_joined mid ps s"
| "handle mid (TransportCreated direction tid created) s = on_transport_created mid direction tid created s"
| "handle mid (NewProducer d) s = on_new_producer mid d s"
| "handle mid (ConsumedEv now d r resumed) s = on_consumed now d r resumed s"
| "handle mid (ParticipantLeft pid) s = on_participant_left pid s"
| "handle mid (ProducerClosed now d) s = on_producer_closed now d s"
| "handle mid (TransportConnected tid) s = on_transport_connected tid s"
| "handle mid (Produced pid rid) s = on_produced pid rid s"
| "handle mid DisconnectEv s = on_disconnect s"

fun run :: "string \<Rightarrow> event list \<Rightarrow> hook_state \<Rightarrow> hook_state" where
  "run mid [] s = s"
| "run mid (e # es) s = run mid es (handle mid e s)"

section \<open>The application component (src/App.tsx): calls and admission\<close>

text \<open>
  The component keeps React state variables, calls the REST functions of
  \<open>api/meeting.ts\<close> and calls \<open>joinMeeting\<close> and \<open>leaveMeeting\<close> of the hook (as
  \<open>webRTCJoin\<close> and \<open>webRTCLeave\<close>). The model keeps the state variables the handlers
  below use, the log lines (without their time stamp and pictograms) and, in
  \<open>calls\<close>, every REST request and every call into the hook, in order. The answer of a
  REST request is an argument of the handler that awaits it.

  A text the user types, and every log line, is a JavaScript string: a sequence of
  UTF-16 code units, here numbers. Identifiers and messages that come from the server
  are never inspected; they stay \<open>string\<close> and \<open>units\<close> turns them into code units where
  they enter a log line.
\<close>

type_synonym js_text = "nat list"

definition units :: "string \<Rightarrow> js_text" where
  "units t = map of_char t"

text \<open>\<open>Meeting\<close>, with the fields the handlers read.\<close>

record meeting =
  meeting_id :: string
  meeting_code :: string
  creator_id :: string

text \<open>The answer \<open>{ success, data?, error? }\<close> of a REST function.\<close>

record 'a api_result =
  success :: bool
  data :: "'a option"
  api_error :: "string option"

text \<open>The \<open>data\<close> of \<open>joinMeeting\<close> (the REST function).\<close>

record join_data =
  jd_meeting :: meeting
  canJoin :: bool
  joinError :: "string option"

text \<open>The \<open>data\<close> of \<open>initiateCall\<close> and the payload of \<open>call-accepted\<close>.\<close>

record call_ref =
  callId :: string
  meetingId :: string

text \<open>\<open>Call\<close>, the \<open>data\<close> of \<open>getActiveCall\<close>, with the fields the handlers read.\<close>

datatype call_status = Ringing | Accepted | Rejected | Missed | Ended

record active_call =
  ac_callId :: string
  ac_meetingId :: string
  ac_status :: call_status

definition status_name :: "call_status \<Rightarrow> string" where
  "status_name st =
     (case st of Ringing \<Rightarrow> ''ringing'' | Accepted \<Rightarrow> ''accepted'' | Rejected \<Rightarrow> ''rejected''
      | Missed \<Rightarrow> ''missed'' | Ended \<Rightarrow> ''ended'')"

text \<open>The answer \<open>{ success, position?, error? }\<close> of \<open>requestAdmission\<close>.\<close>

record admission_result =
  ar_success :: bool
  ar_position :: "nat option"
  ar_error :: "string option"

datatype app_call =
    WebRTCJoin meeting
  | WebRTCLeave
  | ApiTestConnection
  | ApiGetMyMeetings
  | ApiGetActiveCall
  | ApiJoinMeeting js_text
  | ApiCheckAdmissionRequired string
  | ApiRequestAdmission string
  | ApiInitiateCall js_text kind
  | ApiGetMeetingById string

text \<open>
  The state variables. \<open>apiConnected\<close> is the component's \<open>isConnected\<close> (the name is
  taken by the hook's state above).
\<close>

record app_state =
  apiConnected :: bool
  currentMeeting :: "meeting option"
  myMeetings :: "meeting list"
  meetingCode :: js_text
  showJoinDialog :: bool
  shouldAutoJoin :: bool
  calleeId :: js_text
  activeCallId :: "string option"
  isInCall :: bool
  callStatus :: string
  isWaiting :: bool
  waitingPosition :: "nat option"
  logs :: "js_text list"
  calls :: "app_call list"

definition initial_app :: app_state where
  "initial_app =
     \<lparr>apiConnected = False, currentMeeting = None, myMeetings = [], meetingCode = [],
      showJoinDialog = False, shouldAutoJoin = False, calleeId = [], activeCallId = None,
      isInCall = False, callStatus = '''', isWaiting = False, waitingPosition = None,
      logs = [], calls = []\<rparr>"

text \<open>\<open>setLogs(prev => [...prev.slice(-50), line])\<close>.\<close>

definition log :: "js_text \<Rightarrow> app_state \<Rightarrow> app_state" where
  "log line s = s\<lparr>logs := drop (length (logs s) - 50) (logs s) @ [line]\<rparr>"

definition call :: "app_call \<Rightarrow> app_state \<Rightarrow> app_state" where
  "call c s = s\<lparr>calls := calls s @ [c]\<rparr>"

text \<open>
  \<open>!text.trim()\<close>: the text is empty after trimming when all its code units are white
  space or line terminators. \<open>String.prototype.trim\<close> strips the code units U+0009 to
  U+000D, U+0020, U+00A0, U+1680, U+2000 to U+200A, U+2028, U+2029, U+202F, U+205F,
  U+3000 and U+FEFF.
\<close>

definition is_space :: "nat \<Rightarrow> bool" where
  "is_space c =
     (c \<in> set [0x0009, 0x000A, 0x000B, 0x000C, 0x000D, 0x0020, 0x00A0, 0x1680,
               0x2000, 0x2001, 0x2002, 0x2003, 0x2004, 0x2005, 0x2006, 0x2007,
               0x2008, 0x2009, 0x200A, 0x2028, 0x2029, 0x202F, 0x205F, 0x3000, 0xFEFF])"

definition is_blank :: "js_text \<Rightarrow> bool" where
  "is_blank text = (filter (\<lambda>c. \<not> is_space c) text = [])"

definition kind_name :: "kind \<Rightarrow> string" where
  "kind_name k = (case k of Audio \<Rightarrow> ''audio'' | Video \<Rightarrow> ''video'')"

definition or_text :: "string option \<Rightarrow> string" where
  "or_text v = (case v of None \<Rightarrow> ''undefined'' | Some x \<Rightarrow> x)"

text \<open>
  The effect that joins the media session:
  \<^verbatim>\<open>
  useEffect(() => {
      if (currentMeeting && shouldAutoJoin && !isWaiting) {
          log('Auto-joining WebRTC...');
          webRTCJoin();
          setShouldAutoJoin(false);
      }
  }, [currentMeeting, shouldAutoJoin, isWaiting, webRTCJoin, log]);
  \<close>
  React runs it after a render in which one of the three state variables has changed.
  It is the only caller of \<open>webRTCJoin\<close>, whose hook has the current meeting as its
  \<open>meeting\<close>.
\<close>

definition autoJoinEffect :: "app_state \<Rightarrow> app_state" where
  "autoJoinEffect s =
     (case currentMeeting s of
        None \<Rightarrow> s
      | Some m \<Rightarrow>
          if shouldAutoJoin s \<and> \<not> isWaiting s
          then (call (WebRTCJoin m) (log (units ''Auto-joining WebRTC...'') s))
                 \<lparr>shouldAutoJoin := False\<rparr>
          else s)"

text \<open>
  \<open>handleTestConnection\<close>, the handler of the button that connects the component to the
  API. \<open>result\<close>, \<open>meetingsResult\<close>, \<open>activeCallResult\<close> and \<open>meetingResult\<close> are the answers
  of \<open>testConnection\<close>, \<open>getMyMeetings\<close>, \<open>getActiveCall\<close> and \<open>getMeetingById\<close>. When the
  server reports an active call, the handler takes it over, whatever its status: it sets
  the in-call flag, fetches the meeting of the call and sets \<open>shouldAutoJoin\<close>.
\<close>

definition handleTestConnection ::
  "unit api_result \<Rightarrow> meeting list api_result \<Rightarrow> active_call api_result \<Rightarrow>
   meeting api_result \<Rightarrow> app_state \<Rightarrow> app_state" where
  "handleTestConnection result meetingsResult activeCallResult meetingResult s =
     (let s1 = call ApiTestConnection (log (units ''Testing connection...'') s)
      in if \<not> success result
         then (log (units (''Connection failed: '' @ or_text (api_error result))) s1)
                \<lparr>apiConnected := False\<rparr>
         else (let s2 = (log (units ''Connected to API!'') s1)\<lparr>apiConnected := True\<rparr>;
                   s3 = call ApiGetMyMeetings s2;
                   s4 = (case (if success meetingsResult then data meetingsResult else None) of
                           None \<Rightarrow> s3
                         | Some ms \<Rightarrow> s3\<lparr>myMeetings := ms\<rparr>);
                   s5 = call ApiGetActiveCall s4
               in case (if success activeCallResult then data activeCallResult else None) of
                    None \<Rightarrow> s5
                  | Some c \<Rightarrow>
                      (let s6 = log (units (''Found active call: '' @ ac_callId c @
                                             '' (status: '' @ status_name (ac_status c) @ '')'')) s5;
                           s7 = s6\<lparr>activeCallId := Some (ac_callId c), isInCall := True,
                                   callStatus := ''In call - '' @ status_name (ac_status c)\<rparr>;
                           s8 = call (ApiGetMeetingById (ac_meetingId c)) s7
                       in case (if success meetingResult then data meetingResult else None) of
                            None \<Rightarrow> s8
                          | Some m \<Rightarrow> s8\<lparr>currentMeeting := Some m, shouldAutoJoin := True\<rparr>)))"

text \<open>
  \<open>handleInitiateCall\<close>. \<open>result\<close> is the answer of \<open>initiateCall\<close>. The source says at
  the point where the call identifier is stored:
  \<^verbatim>\<open>
  // DON'T set isInCall or join WebRTC yet!
  // Wait for call-accepted event before joining
  \<close>
\<close>

definition handleInitiateCall :: "kind \<Rightarrow> call_ref api_result \<Rightarrow> app_state \<Rightarrow> app_state" where
  "handleInitiateCall type result s =
     (if is_blank (calleeId s) then log (units ''Please enter a user ID to call'') s
      else (let s1 = log (units (''Starting '' @ kind_name type @ '' call to '') @ calleeId s @
                            units ''...'') s;
                s2 = s1\<lparr>callStatus := ''Calling...''\<rparr>;
                s3 = call (ApiInitiateCall (calleeId s) type) s2
            in case (if success result then data result else None) of
                 Some d \<Rightarrow>
                   (let s4 = log (units (''Call initiated (ID: '' @ callId d @ '')'')) s3;
                        s5 = s4\<lparr>activeCallId := Some (callId d)\<rparr>
                    in log (units ''Waiting for callee to answer...'') s5)
               | None \<Rightarrow>
                   (log (units (''Failed to initiate call: '' @ or_text (api_error result))) s3)
                     \<lparr>callStatus := ''''\<rparr>))"

text \<open>
  The handler of \<open>call-accepted\<close>. \<open>meetingResult\<close> is the answer of \<open>getMeetingById\<close>, which
  is requested only for a non-empty meeting identifier.
\<close>

definition on_call_accepted :: "call_ref \<Rightarrow> meeting api_result \<Rightarrow> app_state \<Rightarrow> app_state" where
  "on_call_accepted d meetingResult s =
     (let s1 = log (units ''Call accepted by other party!'') s;
          s2 = s1\<lparr>callStatus := ''In call'', isInCall := True\<rparr>
      in if meetingId d = '''' then s2
         else (let s3 = call (ApiGetMeetingById (meetingId d)) s2
               in case (if success meetingResult then data meetingResult else None) of
                    Some m \<Rightarrow> s3\<lparr>currentMeeting := Some m, shouldAutoJoin := True\<rparr>
                  | None \<Rightarrow> s3))"

text \<open>The handler of \<open>admission-granted\<close>.\<close>

definition on_admission_granted :: "app_state \<Rightarrow> app_state" where
  "on_admission_granted s =
     (log (units ''You have been admitted to the meeting!'') s)
       \<lparr>isWaiting := False, waitingPosition := None, shouldAutoJoin := True\<rparr>"

text \<open>\<open>admissionResult.position || 1\<close>: a missing position and the position 0 give 1.\<close>

definition position_or_one :: "nat option \<Rightarrow> nat" where
  "position_or_one p = (case p of None \<Rightarrow> 1 | Some n \<Rightarrow> (if n = 0 then 1 else n))"

text \<open>The decimal numeral of a number, and \<open>${position}\<close> in a template string.\<close>

function decimal :: "nat \<Rightarrow> string" where
  "decimal n =
     (if n < 10 then [char_of (48 + n)]
      else decimal (n div 10) @ [char_of (48 + n mod 10)])"
  by pat_completeness auto
termination
  by (relation "measure id") auto

definition position_text :: "nat option \<Rightarrow> string" where
  "position_text p = (case p of None \<Rightarrow> ''undefined'' | Some n \<Rightarrow> decimal n)"

text \<open>
  \<open>handleJoinMeeting\<close>. \<open>result\<close>, \<open>admissionCheck\<close> and \<open>admissionResult\<close> are the answers of
  \<open>joinMeeting\<close>, \<open>checkAdmissionRequired\<close> and \<open>requestAdmission\<close>; a REST function answers
  \<open>{ success: false, error }\<close> when its request fails. The handler stores the meeting
  before it awaits the admission check, so React renders and runs the effect above at
  that point. The waiting room is entered only in the branch
  \<open>admissionCheck.success && admissionCheck.data?.required\<close>; every other answer takes the
  \<open>else\<close> branch, which sets \<open>shouldAutoJoin\<close>.
\<close>

definition handleJoinMeeting ::
  "join_data api_result \<Rightarrow> bool api_result \<Rightarrow> admission_result \<Rightarrow> app_state \<Rightarrow> app_state" where
  "handleJoinMeeting result admissionCheck admissionResult s =
     (if is_blank (meetingCode s) then log (units ''Please enter a meeting code'') s
      else (let s1 = log (units ''Joining meeting '' @ meetingCode s @ units ''...'') s;
                s2 = call (ApiJoinMeeting (meetingCode s)) s1
            in case (if success result then data result else None) of
                 None \<Rightarrow> log (units (''Failed to join: '' @ or_text (api_error result))) s2
               | Some d \<Rightarrow>
                   if \<not> canJoin d then log (units (''Cannot join: '' @ or_text (joinError d))) s2
                   else (let m = jd_meeting d;
                             s3 = log (units (''Joined meeting: '' @ meeting_code m)) s2;
                             s4 = s3\<lparr>currentMeeting := Some m, showJoinDialog := False\<rparr>;
                             s5 = call (ApiCheckAdmissionRequired (meeting_id m)) s4;
                             s6 = autoJoinEffect s5
                         in if success admissionCheck \<and> data admissionCheck = Some True
                            then (let s7 = log (units ''Waiting room enabled - requesting admission...'') s6;
                                      s8 = call (ApiRequestAdmission (meeting_id m)) s7
                                  in if ar_success admissionResult
                                     then log (units (''In waiting room (Position: '' @
                                                 position_text (ar_position admissionResult) @ '')''))
                                            (s8\<lparr>isWaiting := True,
                                                waitingPosition :=
                                                  Some (position_or_one (ar_position admissionResult))\<rparr>)
                                     else s8)
                            else s6\<lparr>shouldAutoJoin := True\<rparr>)))"

text \<open>The calls of \<open>webRTCJoin\<close> so far.\<close>

fun is_join :: "app_call \<Rightarrow> bool" where
  "is_join (WebRTCJoin m) = True"
| "is_join c = False"

definition joins :: "app_state \<Rightarrow> app_call list" where
  "joins s = filter is_join (calls s)"

section \<open>Vocabulary of the properties\<close>

text \<open>The producers the registry holds under a key, in order.\<close>

definition slot_producers :: "string \<Rightarrow> hook_state \<Rightarrow> producer list" where
  "slot_producers key s = map snd (filter (\<lambda>(k, p). k = key) (producersRef s))"

text \<open>The calls that close a producer: the \<open>close-producer\<close> notification and
  \<open>producer.close()\<close>.\<close>

fun is_closing :: "effect \<Rightarrow> bool" where
  "is_closing (Emit (CloseProducerMsg m p k a)) = True"
| "is_closing (ProducerClose p) = True"
| "is_closing e = False"

definition closings :: "hook_state \<Rightarrow> effect list" where
  "closings s = filter is_closing (effects s)"

text \<open>The \<open>consume\<close> requests the hook has emitted for a producer.\<close>

fun is_consume_for :: "string \<Rightarrow> effect \<Rightarrow> bool" where
  "is_consume_for p (Emit (ConsumeMsg m part q k a)) = (q = p)"
| "is_consume_for p e = False"

definition consume_requests :: "string \<Rightarrow> hook_state \<Rightarrow> nat" where
  "consume_requests p s = length (filter (is_consume_for p) (effects s))"

text \<open>The events that report the producer \<open>p\<close> closed.\<close>

fun closes :: "string \<Rightarrow> event \<Rightarrow> bool" where
  "closes p (ProducerClosed now d) = (producerId d = p)"
| "closes p e = False"

text \<open>The tracks the hook has stopped.\<close>

fun stopped_track :: "effect \<Rightarrow> media_track list" where
  "stopped_track (TrackStop t) = [t]"
| "stopped_track e = []"

definition stopped_tracks :: "hook_state \<Rightarrow> media_track list" where
  "stopped_tracks s = concat (map stopped_track (effects s))"

text \<open>The completion callbacks the negotiations have called.\<close>

fun is_completion :: "effect \<Rightarrow> bool" where
  "is_completion (ConnectCallback t) = True"
| "is_completion (ProduceCallback r p) = True"
| "is_completion e = False"

definition completions :: "hook_state \<Rightarrow> effect list" where
  "completions s = filter is_completion (effects s)"

text \<open>The requests for admission the component has sent.\<close>

fun is_admission_request :: "app_call \<Rightarrow> bool" where
  "is_admission_request (ApiRequestAdmission m) = True"
| "is_admission_request c = False"

definition admission_requests :: "app_state \<Rightarrow> app_call list" where
  "admission_requests s = filter is_admission_request (calls s)"

text \<open>
  The transports the device has created for the hook, in order, and those among them on
  which the hook has not called \<open>close\<close>.
\<close>

fun created_transport :: "effect \<Rightarrow> string list" where
  "created_transport (CreateSendTransport t) = [t]"
| "created_transport (CreateRecvTransport t) = [t]"
| "created_transport e = []"

fun closed_transport :: "effect \<Rightarrow> string list" where
  "closed_transport (TransportClose t) = [t]"
| "closed_transport e = []"

definition open_transports :: "hook_state \<Rightarrow> string list" where
  "open_transports s =
     filter (\<lambda>t. t \<notin> set (concat (map closed_transport (effects s))))
       (concat (map created_transport (effects s)))"

text \<open>The sockets the hook has opened and the calls of \<open>socket.disconnect\<close>.\<close>

fun is_socket_open :: "effect \<Rightarrow> bool" where
  "is_socket_open (SocketOpen url) = True"
| "is_socket_open e = False"

definition socket_opens :: "hook_state \<Rightarrow> nat" where
  "socket_opens s = length (filter is_socket_open (effects s))"

definition socket_disconnects :: "hook_state \<Rightarrow> nat" where
  "socket_disconnects s = length (filter (\<lambda>e. e = SocketDisconnect) (effects s))"

section \<open>Scenarios\<close>

text \<open>
  The hook after \<open>joinMeeting\<close> has loaded the device and the socket has connected, and
  after the server has acknowledged the join and created both transports.
\<close>

definition config_ok :: config_response where
  "config_ok = \<lparr>cr_success = True,
                cr_data = Some \<lparr>rtpCapabilities = Some ''rtpCapabilities'', routerError = None\<rparr>,
                cr_error = None\<rparr>"

definition joined_hook :: hook_state where
  "joined_hook = run ''m-1'' [Connect] (joinMeeting (Some ''m-1'') config_ok None initial_hook)"

definition ready_hook :: hook_state where
  "ready_hook =
     run ''m-1'' [MeetingJoined [], TransportCreated ''send'' ''st-1'' True,
                 TransportCreated ''recv'' ''rt-1'' True] joined_hook"

text \<open>Two camera captures, two microphone captures and two screen captures.\<close>

definition cam_1 :: media_stream where "cam_1 = [Track ''cam-1'' Video]"
definition cam_2 :: media_stream where "cam_2 = [Track ''cam-2'' Video]"
definition mic_1 :: media_stream where "mic_1 = [Track ''mic-1'' Audio]"
definition mic_2 :: media_stream where "mic_2 = [Track ''mic-2'' Audio]"
definition scr_1 :: media_stream where "scr_1 = [Track ''scr-1'' Video, Track ''tab-1'' Audio]"
definition scr_2 :: media_stream where "scr_2 = [Track ''scr-2'' Video, Track ''tab-2'' Audio]"

definition camera_published_twice :: hook_state where
  "camera_published_twice =
     startCamera (Some ''m-1'') (Inr cam_2) (Some ''prod-2'')
       (startCamera (Some ''m-1'') (Inr cam_1) (Some ''prod-1'') ready_hook)"

text \<open>Alice announces her camera and her screen; the engine consumes both.\<close>

definition alice_camera :: producer_ref where
  "alice_camera = \<lparr>participantId = ''alice'', producerId = ''prod-a'', ref_kind = Video,
                    appData = None\<rparr>"

definition alice_screen :: producer_ref where
  "alice_screen = \<lparr>participantId = ''alice'', producerId = ''prod-b'', ref_kind = Video,
                    appData = Some (AppData (Some ''screen''))\<rparr>"

definition alice_camera_consumed :: event where
  "alice_camera_consumed =
     ConsumedEv 10 \<lparr>cd_id = ''cons-a'', cd_producerId = ''prod-a'', cd_kind = Video,
                     cd_producerParticipantId = ''alice'', cd_appData = None\<rparr>
       (Some (Track ''remote-cam'' Video)) True"

definition alice_screen_consumed :: event where
  "alice_screen_consumed =
     ConsumedEv 11 \<lparr>cd_id = ''cons-b'', cd_producerId = ''prod-b'', cd_kind = Video,
                     cd_producerParticipantId = ''alice'', cd_appData = None\<rparr>
       (Some (Track ''remote-scr'' Video)) True"

definition watching_camera :: hook_state where
  "watching_camera = run ''m-1'' [NewProducer alice_camera, alice_camera_consumed] ready_hook"

definition watching_both :: hook_state where
  "watching_both = run ''m-1'' [NewProducer alice_screen, alice_screen_consumed] watching_camera"

text \<open>
  The announcement of Alice's camera before and after the receive transport is created.
\<close>

definition announced_early :: hook_state where
  "announced_early =
     run ''m-1'' [MeetingJoined [], NewProducer alice_camera,
                 TransportCreated ''send'' ''st-1'' True,
                 TransportCreated ''recv'' ''rt-1'' True] joined_hook"

definition announced_late :: hook_state where
  "announced_late =
     run ''m-1'' [MeetingJoined [], TransportCreated ''send'' ''st-1'' True,
                 TransportCreated ''recv'' ''rt-1'' True,
                 NewProducer alice_camera] joined_hook"

text \<open>Two publish negotiations wait for their acknowledgment.\<close>

definition two_publishes :: hook_state where
  "two_publishes =
     on_transport_produce ''m-1'' Audio None ''1700000000001-k3j9x1q0a''
       (on_transport_produce ''m-1'' Video None ''1700000000000-a1b2c3d4e'' ready_hook)"

text \<open>A guest joins a meeting by its code; the admission check fails.\<close>

definition room_a :: meeting where
  "room_a = \<lparr>meeting_id = ''m-1'', meeting_code = ''abc-defg'', creator_id = ''host-1''\<rparr>"

definition join_ok :: "join_data api_result" where
  "join_ok = \<lparr>success = True,
              data = Some \<lparr>jd_meeting = room_a, canJoin = True, joinError = None\<rparr>,
              api_error = None\<rparr>"

definition failed_check :: "bool api_result" where
  "failed_check = \<lparr>success = False, data = None, api_error = Some ''TypeError: Failed to fetch''\<rparr>"

definition unused_admission :: admission_result where
  "unused_admission = \<lparr>ar_success = False, ar_position = None, ar_error = None\<rparr>"

definition guest_app :: app_state where
  "guest_app = initial_app\<lparr>meetingCode := units ''abc-defg''\<rparr>"

text \<open>A caller rings a user; the call is initiated and later accepted.\<close>

definition caller_app :: app_state where
  "caller_app = initial_app\<lparr>calleeId := units ''user-2''\<rparr>"

definition call_1 :: call_ref where
  "call_1 = \<lparr>callId = ''call-1'', meetingId = ''m-1''\<rparr>"

definition call_initiated :: "call_ref api_result" where
  "call_initiated = \<lparr>success = True, data = Some call_1, api_error = None\<rparr>"

definition room_found :: "meeting api_result" where
  "room_found = \<lparr>success = True, data = Some room_a, api_error = None\<rparr>"

text \<open>
  While the call rings, the caller presses the connection test; the server reports the
  call just initiated, still ringing, as the caller's active call.
\<close>

definition ringing_app :: app_state where
  "ringing_app = autoJoinEffect (handleInitiateCall Video call_initiated caller_app)"

definition api_ok :: "unit api_result" where
  "api_ok = \<lparr>success = True, data = None, api_error = None\<rparr>"

definition no_meetings :: "meeting list api_result" where
  "no_meetings = \<lparr>success = True, data = Some [], api_error = None\<rparr>"

definition ringing_call :: "active_call api_result" where
  "ringing_call =
     \<lparr>success = True,
      data = Some \<lparr>ac_callId = ''call-1'', ac_meetingId = ''m-1'', ac_status = Ringing\<rparr>,
      api_error = None\<rparr>"

definition tested_while_ringing :: app_state where
  "tested_while_ringing =
     autoJoinEffect (handleTestConnection api_ok no_meetings ringing_call room_found ringing_app)"

text \<open>
  Alice's camera is in the list of existing producers of \<open>meeting-joined\<close> and is then
  announced twice.
\<close>

definition alice_existing :: pending_producer where
  "alice_existing = \<lparr>pp_participantId = ''alice'', pp_producerId = ''prod-a'', pp_kind = Video\<rparr>"

definition existing_flushed :: hook_state where
  "existing_flushed =
     run ''m-1'' [MeetingJoined [alice_existing], TransportCreated ''send'' ''st-1'' True,
                 TransportCreated ''recv'' ''rt-1'' True] joined_hook"

definition existing_then_announced :: hook_state where
  "existing_then_announced =
     run ''m-1'' [NewProducer alice_camera, NewProducer alice_camera] existing_flushed"

text \<open>
  The socket of a ready hook loses its connection and reconnects: the \<open>connect\<close> handler
  joins again and the server creates two new transports. Then the user leaves.
\<close>

definition reconnected_hook :: hook_state where
  "reconnected_hook =
     run ''m-1'' [DisconnectEv, Connect, MeetingJoined [],
                 TransportCreated ''send'' ''st-2'' True,
                 TransportCreated ''recv'' ''rt-2'' True] ready_hook"

text \<open>
  The user leaves while \<open>joinMeeting\<close> awaits the configuration; the answer arrives
  afterwards and the device loads.
\<close>

definition left_while_joining :: hook_state where
  "left_while_joining =
     joinMeeting_loaded ''rtpCapabilities'' None
       (fst (joinMeeting_configured config_ok
               (leaveMeeting (joinMeeting_begin (Some ''m-1'') initial_hook))))"

section \<open>Properties of the authentication token\<close>

text \<open>
  Claim C10. For every token string \<open>t\<close>, \<open>setAuthToken(t)\<close> followed by \<open>getAuthToken()\<close>
  returns \<open>t\<close>; and when no token is set in memory, \<open>getAuthToken()\<close> returns the token
  persisted in local storage, or the empty string when none is persisted.
\<close>

theorem auth_token_roundtrip:
  "fst (getAuthToken (setAuthToken t st)) = t \<and>
   (authToken st = '''' \<longrightarrow>
      fst (getAuthToken st) =
        (case localStorage st ''authToken'' of None \<Rightarrow> '''' | Some v \<Rightarrow> v))"
  by (simp add: getAuthToken_def setAuthToken_def or_empty_def Let_def split: option.split)

text \<open>
  The witness: a token set on an empty store, and a store that holds a persisted token
  and no token in memory.
\<close>

theorem auth_token_roundtrip_witness:
  "fst (getAuthToken (setAuthToken ''jwt-abc''
          \<lparr>authToken = '''', localStorage = Map.empty\<rparr>)) = ''jwt-abc'' \<and>
   authToken \<lparr>authToken = '''', localStorage = [''authToken'' \<mapsto> ''stored'']\<rparr> = '''' \<and>
   fst (getAuthToken \<lparr>authToken = '''', localStorage = [''authToken'' \<mapsto> ''stored'']\<rparr>)
     = ''stored''"
  using auth_token_roundtrip [of "''jwt-abc''" "\<lparr>authToken = '''', localStorage = Map.empty\<rparr>"]
        auth_token_roundtrip [of "''x''"
          "\<lparr>authToken = '''', localStorage = [''authToken'' \<mapsto> ''stored'']\<rparr>"]
  by simp

section \<open>The scenarios, evaluated\<close>

lemma joined_hook_eval:
  "joined_hook = initial_hook\<lparr>connectionStatus := Connecting,
      deviceRef := Some ''rtpCapabilities'', socketRef := Some SOCKET_URL,
      effects := [SocketOpen SOCKET_URL, Emit (JoinMeetingMsg ''m-1'')]\<rparr>"
  by (simp add: joined_hook_def joinMeeting_def joinMeeting_begin_def joinMeeting_configured_def
        joinMeeting_loaded_def config_ok_def or_else_def on_connect_def initial_hook_def Let_def)

lemma ready_hook_eval:
  "ready_hook = joined_hook\<lparr>isConnected := True, connectionStatus := Connected,
      effects := [SocketOpen SOCKET_URL, Emit (JoinMeetingMsg ''m-1''),
                  Emit (CreateTransportMsg ''m-1'' ''send''),
                  Emit (CreateTransportMsg ''m-1'' ''recv''),
                  CreateSendTransport ''st-1'', CreateRecvTransport ''rt-1''],
      sendTransportRef := Some ''st-1'', recvTransportRef := Some ''rt-1''\<rparr>"
  by (simp add: ready_hook_def joined_hook_eval initial_hook_def on_meeting_joined_def
        on_transport_created_def Let_def)

lemmas scenario_defs = ready_hook_eval joined_hook_eval initial_hook_def alice_camera_def
  alice_screen_def alice_camera_consumed_def alice_screen_consumed_def watching_camera_def
  watching_both_def

lemmas handler_defs = on_new_producer_def on_consumed_def on_producer_closed_def
  on_meeting_joined_def on_transport_created_def close_consumer_of_def clear_slot_def
  resolve_appData_def has_type_def add_to_slot_def addTrack_def name_or_default_def Let_def

section \<open>Leaving a meeting\<close>

text \<open>
  Claim C4, as the spec states it, asks that leaving from any state, a partially joined
  one included, leaves nothing open. Two runs show what \<open>leaveMeeting\<close> does not reach.
  After a reconnection the two refs hold the second pair of transports: leaving closes
  that pair, and the first pair, which the device created and the refs no longer hold,
  stays open. And when the user leaves while \<open>joinMeeting\<close> still awaits the configuration,
  the join goes on after the leave: the hook ends with a device and with a socket that
  was opened after the leave and that nothing has disconnected.
\<close>

theorem leave_leaves_open_counterexample:
  "open_transports (leaveMeeting reconnected_hook) = [''st-1'', ''rt-1''] \<and>
   socketRef left_while_joining = Some SOCKET_URL \<and>
   deviceRef left_while_joining = Some ''rtpCapabilities'' \<and>
   socket_opens left_while_joining = 1 \<and>
   socket_disconnects left_while_joining = 0"
  by (simp add: open_transports_def reconnected_hook_def left_while_joining_def leaveMeeting_def
        ready_hook_eval joined_hook_eval initial_hook_def on_disconnect_def on_connect_def
        on_meeting_joined_def on_transport_created_def joinMeeting_begin_def
        joinMeeting_configured_def joinMeeting_loaded_def config_ok_def or_else_def
        socket_opens_def socket_disconnects_def Let_def)

text \<open>
  Claim C4, amended. From any state, also a partially joined one (a send transport
  without a receive transport, or no transport at all), \<open>leaveMeeting\<close> calls, in this
  order, \<open>close\<close> on every consumer and on every producer that the registries hold,
  \<open>close\<close> on the send transport and on the receive transport that the refs hold, \<open>stop\<close>
  on every track of the local stream and of the screen stream that the refs hold, and
  \<open>disconnect\<close> on the socket that the ref holds, and it makes no other call. It leaves
  both registries empty and the refs of the transports, the streams and the socket
  \<open>null\<close>. A second call makes no call and changes nothing.
\<close>

theorem leaveMeeting_teardown:
  "producersRef (leaveMeeting s) = [] \<and>
   consumersRef (leaveMeeting s) = [] \<and>
   sendTransportRef (leaveMeeting s) = None \<and>
   recvTransportRef (leaveMeeting s) = None \<and>
   localStreamRef (leaveMeeting s) = None \<and>
   screenStreamRef (leaveMeeting s) = None \<and>
   socketRef (leaveMeeting s) = None \<and>
   effects (leaveMeeting s) =
     effects s
       @ map (\<lambda>(k, c). ConsumerClose (consumer_id c)) (consumersRef s)
       @ map (\<lambda>(k, p). ProducerClose (producer_id p)) (producersRef s)
       @ (case sendTransportRef s of None \<Rightarrow> [] | Some t \<Rightarrow> [TransportClose t])
       @ (case recvTransportRef s of None \<Rightarrow> [] | Some t \<Rightarrow> [TransportClose t])
       @ (case localStreamRef s of None \<Rightarrow> [] | Some st \<Rightarrow> map TrackStop st)
       @ (case screenStreamRef s of None \<Rightarrow> [] | Some st \<Rightarrow> map TrackStop st)
       @ (case socketRef s of None \<Rightarrow> [] | Some url \<Rightarrow> [SocketDisconnect]) \<and>
   effects (leaveMeeting (leaveMeeting s)) = effects (leaveMeeting s) \<and>
   leaveMeeting (leaveMeeting s) = leaveMeeting s"
  by (simp add: leaveMeeting_def)

section \<open>Closing a remote producer\<close>

lemma clear_slot_screen:
  "clear_slot Video True b = (b\<lparr>screen := None\<rparr>, case screen b of None \<Rightarrow> [] | Some st \<Rightarrow> st)"
  by (cases "screen b") (simp_all add: clear_slot_def)

lemma close_consumer_of_frame:
  "remoteStreamsRef (close_consumer_of p s) = remoteStreamsRef s"
  "remoteParticipants (close_consumer_of p s) = remoteParticipants s"
  "consumedProducersRef (close_consumer_of p s) = consumedProducersRef s"
  by (simp_all add: close_consumer_of_def split: option.split prod.split)

lemma close_consumer_of_stops:
  "concat (map stopped_track (effects (close_consumer_of p s))) =
   concat (map stopped_track (effects s))"
  by (simp add: close_consumer_of_def split: option.split prod.split)

lemma close_consumer_of_effects_cong:
  "effects (close_consumer_of p (s\<lparr>consumedProducersRef := X, producerAppDataRef := Y\<rparr>)) =
   effects (close_consumer_of p s)"
  by (simp add: close_consumer_of_def split: option.split prod.split)

lemma stopped_track_TrackStop: "concat (map (stopped_track \<circ> TrackStop) ts) = ts"
  by (induction ts) simp_all

lemma on_producer_closed_streams:
  "remoteStreamsRef (on_producer_closed now d s) =
     (case remoteStreamsRef s (participantId d) of
        None \<Rightarrow> remoteStreamsRef s
      | Some b \<Rightarrow>
          (remoteStreamsRef s)(participantId d \<mapsto>
             fst (clear_slot (ref_kind d)
                    (has_type ''screen''
                       (resolve_appData (appData d) (producerAppDataRef s (producerId d)))) b)))"
  by (simp add: on_producer_closed_def Let_def close_consumer_of_frame split: option.split)

lemma on_producer_closed_participants:
  "remoteParticipants (on_producer_closed now d s) =
     (case remoteStreamsRef s (participantId d) of
        None \<Rightarrow> remoteParticipants s
      | Some b \<Rightarrow>
          (case remoteParticipants s (participantId d) of
             None \<Rightarrow> remoteParticipants s
           | Some existing \<Rightarrow>
               (let b' = fst (clear_slot (ref_kind d)
                          (has_type ''screen''
                             (resolve_appData (appData d) (producerAppDataRef s (producerId d)))) b)
                in (remoteParticipants s)(participantId d \<mapsto>
                     existing\<lparr>cameraStream := camera b', screenStream := screen b',
                              audioStream := audio b', updateTs := now\<rparr>))))"
  by (simp add: on_producer_closed_def Let_def close_consumer_of_frame split: option.split)

lemma on_producer_closed_effects:
  "effects (on_producer_closed now d s) =
     effects (close_consumer_of (producerId d) s) @
     (case remoteStreamsRef s (participantId d) of
        None \<Rightarrow> []
      | Some b \<Rightarrow>
          map TrackStop (snd (clear_slot (ref_kind d)
                    (has_type ''screen''
                       (resolve_appData (appData d) (producerAppDataRef s (producerId d)))) b)))"
  by (simp add: on_producer_closed_def Let_def close_consumer_of_frame
        close_consumer_of_effects_cong split: option.split)

lemma watching_camera_streams:
  "remoteStreamsRef watching_camera ''alice'' =
     Some \<lparr>camera = Some [Track ''remote-cam'' Video], screen = None, audio = None\<rparr>"
  by (simp add: scenario_defs handler_defs)

lemma watching_both_streams:
  "remoteStreamsRef watching_both ''alice'' =
     Some \<lparr>camera = Some [Track ''remote-cam'' Video],
           screen = Some [Track ''remote-scr'' Video], audio = None\<rparr>"
  by (simp add: scenario_defs handler_defs)

text \<open>
  Claim C9. When a participant's camera slot is populated, a \<open>producer-closed\<close> event of
  kind video whose discriminator (taken from the event, or else from what the announcement
  stored) is \<open>screen\<close> empties the screen slot only: the camera slot keeps its stream, the
  audio slot is unchanged, an existing participant entry shows the same camera stream,
  and the tracks the event stops are those of the screen stream.
\<close>

theorem screen_closed_keeps_camera:
  assumes "remoteStreamsRef s (participantId d) = Some b"
    and "camera b = Some cam"
    and "ref_kind d = Video"
    and "has_type ''screen'' (resolve_appData (appData d) (producerAppDataRef s (producerId d)))"
  shows "map_option camera (remoteStreamsRef (on_producer_closed now d s) (participantId d))
           = Some (Some cam) \<and>
         map_option screen (remoteStreamsRef (on_producer_closed now d s) (participantId d))
           = Some None \<and>
         map_option audio (remoteStreamsRef (on_producer_closed now d s) (participantId d))
           = Some (audio b) \<and>
         (remoteParticipants s (participantId d) \<noteq> None \<longrightarrow>
            map_option cameraStream (remoteParticipants (on_producer_closed now d s) (participantId d))
              = Some (Some cam)) \<and>
         stopped_tracks (on_producer_closed now d s) =
           stopped_tracks s @ (case screen b of None \<Rightarrow> [] | Some st \<Rightarrow> st)"
proof -
  have streams: "remoteStreamsRef (on_producer_closed now d s) (participantId d)
                   = Some (b\<lparr>screen := None\<rparr>)"
    using assms by (simp add: on_producer_closed_streams clear_slot_screen)
  have parts: "remoteParticipants s (participantId d) \<noteq> None \<longrightarrow>
            map_option cameraStream (remoteParticipants (on_producer_closed now d s) (participantId d))
              = Some (Some cam)"
    using assms by (auto simp: on_producer_closed_participants clear_slot_screen)
  have stops: "stopped_tracks (on_producer_closed now d s) =
           stopped_tracks s @ (case screen b of None \<Rightarrow> [] | Some st \<Rightarrow> st)"
    using assms
    by (simp add: stopped_tracks_def on_producer_closed_effects clear_slot_screen
          close_consumer_of_stops stopped_track_TrackStop)
  from streams parts stops assms(2) show ?thesis by simp
qed

text \<open>
  The witness: Alice's camera and screen are both consumed, then her screen producer is
  reported closed.
\<close>

theorem screen_closed_keeps_camera_witness:
  "remoteStreamsRef watching_both (participantId alice_screen) =
     Some \<lparr>camera = Some [Track ''remote-cam'' Video],
           screen = Some [Track ''remote-scr'' Video], audio = None\<rparr> \<and>
   ref_kind alice_screen = Video \<and>
   has_type ''screen'' (resolve_appData (appData alice_screen)
                          (producerAppDataRef watching_both (producerId alice_screen))) \<and>
   map_option camera (remoteStreamsRef (on_producer_closed 12 alice_screen watching_both) ''alice'')
     = Some (Some [Track ''remote-cam'' Video]) \<and>
   map_option screen (remoteStreamsRef (on_producer_closed 12 alice_screen watching_both) ''alice'')
     = Some None \<and>
   stopped_tracks (on_producer_closed 12 alice_screen watching_both)
     = stopped_tracks watching_both @ [Track ''remote-scr'' Video]"
proof -
  let ?b = "\<lparr>camera = Some [Track ''remote-cam'' Video],
           screen = Some [Track ''remote-scr'' Video], audio = None\<rparr>"
  have p: "participantId alice_screen = ''alice''" by (simp add: alice_screen_def)
  have h1: "remoteStreamsRef watching_both (participantId alice_screen) = Some ?b"
    by (simp add: p watching_both_streams)
  have h2: "camera ?b = Some [Track ''remote-cam'' Video]" by simp
  have h3: "ref_kind alice_screen = Video" by (simp add: alice_screen_def)
  have h4: "has_type ''screen'' (resolve_appData (appData alice_screen)
                          (producerAppDataRef watching_both (producerId alice_screen)))"
    by (simp add: alice_screen_def has_type_def resolve_appData_def)
  note t = screen_closed_keeps_camera [OF h1 h2 h3 h4, of 12]
  from t h1 h3 h4 show ?thesis by (simp add: p)
qed

text \<open>
  Claim C8, as the spec states it, asks that the bundle of a participant is removed once
  a \<open>producer-closed\<close> event leaves no slot populated. Here Alice's only producer, her
  camera, is reported closed: her bundle and her participant entry are still there, with
  three empty slots.
\<close>

theorem producer_closed_keeps_bundle_counterexample:
  "remoteStreamsRef (on_producer_closed 12 alice_camera watching_camera) ''alice'' =
     Some \<lparr>camera = None, screen = None, audio = None\<rparr> \<and>
   map_option odId (remoteParticipants (on_producer_closed 12 alice_camera watching_camera) ''alice'')
     = Some ''alice''"
  by (simp add: on_producer_closed_streams on_producer_closed_participants watching_camera_streams
        clear_slot_def)
     (simp add: scenario_defs handler_defs)

text \<open>
  Claim C8, amended. A \<open>producer-closed\<close> event never removes a bundle or a participant
  entry, whether or not a slot remains populated: both maps keep their keys. The bundle
  and the entry of a participant are removed by \<open>participant-left\<close>.
\<close>

theorem producer_closed_keeps_bundle:
  "dom (remoteStreamsRef (on_producer_closed now d s)) = dom (remoteStreamsRef s) \<and>
   dom (remoteParticipants (on_producer_closed now d s)) = dom (remoteParticipants s) \<and>
   remoteStreamsRef (on_participant_left pid s) pid = None \<and>
   remoteParticipants (on_participant_left pid s) pid = None"
  by (auto simp: on_producer_closed_streams on_producer_closed_participants Let_def
        on_participant_left_def split: option.splits if_splits)

section \<open>Announcements of remote producers\<close>

lemma close_consumer_of_consumed:
  "consumedProducersRef (close_consumer_of p s) = consumedProducersRef s"
  by (simp add: close_consumer_of_def split: option.split prod.split)

lemma on_producer_closed_consumed:
  "consumedProducersRef (on_producer_closed now d s) = consumedProducersRef s - {producerId d}"
  by (simp add: on_producer_closed_def Let_def close_consumer_of_consumed split: option.split)

lemma handle_keeps_mark:
  assumes "\<not> closes p e" and "p \<in> consumedProducersRef s"
  shows "p \<in> consumedProducersRef (handle mid e s)"
proof (cases e)
  case Connect
  with assms show ?thesis by (simp add: on_connect_def)
next
  case (ConnectError err)
  with assms show ?thesis by (simp add: on_connect_error_def)
next
  case (MeetingJoined ps)
  with assms show ?thesis by (simp add: on_meeting_joined_def Let_def)
next
  case (TransportCreated direction tid created)
  with assms show ?thesis by (simp add: on_transport_created_def Let_def)
next
  case (NewProducer d)
  with assms show ?thesis
    by (simp add: on_new_producer_def Let_def split: option.split)
next
  case (ConsumedEv now d r resumed)
  with assms show ?thesis
    by (simp add: on_consumed_def Let_def split: option.split kind.split)
next
  case (ParticipantLeft pid)
  with assms show ?thesis by (simp add: on_participant_left_def)
next
  case (ProducerClosed now d)
  with assms show ?thesis by (simp add: on_producer_closed_consumed)
next
  case (TransportConnected tid)
  with assms show ?thesis by (simp add: on_transport_connected_def)
next
  case (Produced pid rid)
  with assms show ?thesis by (simp add: on_produced_def)
next
  case DisconnectEv
  with assms show ?thesis by (simp add: on_disconnect_def)
qed

lemma run_keeps_mark:
  "filter (closes p) es = [] \<Longrightarrow> p \<in> consumedProducersRef s \<Longrightarrow>
   p \<in> consumedProducersRef (run mid es s)"
proof (induction es arbitrary: s)
  case Nil
  then show ?case by simp
next
  case (Cons e es)
  from Cons.prems(1) have e: "\<not> closes p e" and es: "filter (closes p) es = []"
    by (auto split: if_splits)
  from e Cons.prems(2) have "p \<in> consumedProducersRef (handle mid e s)"
    by (rule handle_keeps_mark)
  with es show ?case by (simp add: Cons.IH)
qed

lemma announced_twice_skips:
  "producerId d \<in> consumedProducersRef s \<Longrightarrow> on_new_producer mid d s = s"
  by (simp add: on_new_producer_def)

lemma announcement_marks:
  "on_new_producer mid d s \<noteq> s \<Longrightarrow> producerId d \<in> consumedProducersRef (on_new_producer mid d s)"
  by (simp add: on_new_producer_def Let_def split: if_splits option.splits)

lemma announcement_requests:
  "consume_requests p (on_new_producer mid d s) =
     (if on_new_producer mid d s = s then consume_requests p s
      else consume_requests p s + (if producerId d = p then 1 else 0))"
  by (auto simp: on_new_producer_def Let_def consume_requests_def split: option.splits)

text \<open>
  What the announcement handler guarantees on its own. When \<open>new-producer\<close> is delivered
  twice for the same producer \<open>p\<close>, the two deliveries together emit at most one
  \<open>consume\<close> request for \<open>p\<close>. If the first delivery emitted the request, \<open>p\<close> is in the
  consumed set in the state it leaves, and the second delivery changes nothing, both
  directly afterwards and after any events in between that do not report \<open>p\<close> closed.
\<close>

lemma duplicate_announcement_ignored:
  assumes "producerId d1 = p" and "producerId d2 = p"
  shows "consume_requests p (on_new_producer mid d2 (on_new_producer mid d1 s))
           \<le> consume_requests p s + 1 \<and>
         (consume_requests p s < consume_requests p (on_new_producer mid d1 s) \<longrightarrow>
            p \<in> consumedProducersRef (on_new_producer mid d1 s) \<and>
            on_new_producer mid d2 (on_new_producer mid d1 s) = on_new_producer mid d1 s \<and>
            (filter (closes p) es = [] \<longrightarrow>
               on_new_producer mid d2 (run mid es (on_new_producer mid d1 s))
                 = run mid es (on_new_producer mid d1 s)))"
proof (cases "on_new_producer mid d1 s = s")
  case True
  then show ?thesis
    using assms by (simp add: announcement_requests)
next
  case False
  then have mark: "p \<in> consumedProducersRef (on_new_producer mid d1 s)"
    using assms(1) announcement_marks by blast
  then have again: "on_new_producer mid d2 (on_new_producer mid d1 s) = on_new_producer mid d1 s"
    using assms(2) by (simp add: announced_twice_skips)
  have later: "filter (closes p) es = [] \<longrightarrow>
               on_new_producer mid d2 (run mid es (on_new_producer mid d1 s))
                 = run mid es (on_new_producer mid d1 s)"
    using mark assms(2) by (simp add: run_keeps_mark announced_twice_skips)
  have "consume_requests p (on_new_producer mid d1 s) \<le> consume_requests p s + 1"
    by (simp add: announcement_requests)
  with mark again later show ?thesis by simp
qed

text \<open>
  Claim C2 asks that the hook issues at most one \<open>consume\<close> request for a producer even
  when the producer is announced twice. The consumed set is there to "track already
  consumed producers", and the announcement handler tests it and marks the producer
  "before emitting to prevent race conditions". The path that consumes the existing
  producers of \<open>meeting-joined\<close> does neither: it emits \<open>consume\<close> without a test and without
  a mark. Alice's camera is in the list of existing producers and is requested when the
  receive transport is created; it is not in the consumed set then, so its first
  announcement requests it a second time. Only the second announcement is ignored.
\<close>

theorem existing_producer_is_requested_twice:
  "consume_requests ''prod-a'' existing_flushed = 1 \<and>
   ''prod-a'' \<notin> consumedProducersRef existing_flushed \<and>
   consume_requests ''prod-a'' (on_new_producer ''m-1'' alice_camera existing_flushed) = 2 \<and>
   consume_requests ''prod-a'' existing_then_announced = 2"
  by (simp add: existing_then_announced_def existing_flushed_def alice_existing_def
        scenario_defs handler_defs consume_requests_def)

text \<open>
  Claim C5 asks that an announcement ends up consumed whether it arrives before or after
  the receive transport is ready. The handler of \<open>new-producer\<close> gives up without a trace
  when there is no receive transport, while the sibling path of \<open>meeting-joined\<close> keeps
  the producers it learns of too early in \<open>pendingProducers\<close> "to consume after transport
  is ready". An announcement that arrives between \<open>meeting-joined\<close> and
  \<open>transport-created\<close> is therefore never consumed: no request is emitted for it, it is
  neither marked nor pending once the transport is there; the same announcement
  after the transport is requested, and its \<open>consumed\<close> event fills Alice's camera slot.
\<close>

theorem announcement_before_transport_is_dropped:
  "consume_requests ''prod-a'' announced_early = 0 \<and>
   ''prod-a'' \<notin> consumedProducersRef announced_early \<and>
   pendingProducers announced_early = [] \<and>
   recvTransportRef announced_early = Some ''rt-1'' \<and>
   consume_requests ''prod-a'' announced_late = 1 \<and>
   ''prod-a'' \<in> consumedProducersRef announced_late \<and>
   remoteStreamsRef (handle ''m-1'' alice_camera_consumed announced_late) ''alice'' =
     Some \<lparr>camera = Some [Track ''remote-cam'' Video], screen = None, audio = None\<rparr>"
  by (simp add: announced_early_def announced_late_def scenario_defs handler_defs
        consume_requests_def)

section \<open>Acknowledgments of the negotiations\<close>

lemma filter_neq_id: "x \<notin> set xs \<Longrightarrow> filter (\<lambda>t. t \<noteq> x) xs = xs"
  by (induction xs) auto

lemma filter_eq_nil: "x \<notin> set xs \<Longrightarrow> filter (\<lambda>t. t = x) xs = []"
  by (induction xs) auto

lemma accepts_token: "r \<noteq> '''' \<Longrightarrow> accepts (Some r) = (\<lambda>l. l = r)"
  by (auto simp: accepts_def fun_eq_iff)

lemma accepts_any: "accepts None = (\<lambda>l. True)" "accepts (Some '''') = (\<lambda>l. True)"
  by (auto simp: accepts_def fun_eq_iff)

lemma completions_append:
  "filter is_completion (es @ map ConnectCallback ts) = filter is_completion es @ map ConnectCallback ts"
  "filter is_completion (es @ map (\<lambda>r. ProduceCallback r p) rs)
     = filter is_completion es @ map (\<lambda>r. ProduceCallback r p) rs"
  by (induction ts) (simp_all add: filter_map comp_def)

text \<open>
  Claim C6, as the spec states it, asks that a negotiation completes only for an
  acknowledgment that carries its correlation token. Two publish negotiations wait, each
  with its own request identifier; one \<open>produced\<close> acknowledgment without a request
  identifier completes both, with the same producer identifier.
\<close>

theorem ack_without_token_counterexample:
  "completions (on_produced ''prod-9'' None two_publishes) =
     [ProduceCallback ''1700000000000-a1b2c3d4e'' ''prod-9'',
      ProduceCallback ''1700000000001-k3j9x1q0a'' ''prod-9'']"
  by (simp add: two_publishes_def on_produced_def on_transport_produce_def completions_def
        ready_hook_eval joined_hook_eval initial_hook_def accepts_def)

text \<open>
  Claim C6, amended. A \<open>transport-connected\<close> acknowledgment completes exactly the
  connect negotiations that wait for its transport identifier; one for a transport
  nobody waits for changes nothing, and so does a repeated one. A \<open>produced\<close>
  acknowledgment with a non-empty request identifier completes exactly the publish
  negotiations that wait for that identifier; one with an identifier nobody waits for
  changes nothing, and so does a repeated one. A \<open>produced\<close> acknowledgment without a
  request identifier, or with the empty one, completes every waiting publish negotiation
  ("Match by requestId if available, otherwise accept any").
\<close>

theorem negotiation_ack_matching:
  "completions (on_transport_connected tid s) =
     completions s @ map ConnectCallback (filter (\<lambda>l. l = tid) (connectListeners s)) \<and>
   (tid \<notin> set (connectListeners s) \<longrightarrow> on_transport_connected tid s = s) \<and>
   on_transport_connected tid (on_transport_connected tid s) = on_transport_connected tid s \<and>
   (r \<noteq> '''' \<longrightarrow>
      completions (on_produced pid (Some r) s) =
        completions s @ map (\<lambda>l. ProduceCallback l pid) (filter (\<lambda>l. l = r) (producedListeners s))) \<and>
   (r \<noteq> '''' \<and> r \<notin> set (producedListeners s) \<longrightarrow> on_produced pid (Some r) s = s) \<and>
   on_produced pid (Some r) (on_produced pid (Some r) s) = on_produced pid (Some r) s \<and>
   completions (on_produced pid None s) =
     completions s @ map (\<lambda>l. ProduceCallback l pid) (producedListeners s) \<and>
   completions (on_produced pid (Some '''') s) =
     completions s @ map (\<lambda>l. ProduceCallback l pid) (producedListeners s)"
proof -
  have c1: "completions (on_transport_connected tid s) =
     completions s @ map ConnectCallback (filter (\<lambda>l. l = tid) (connectListeners s))"
    by (simp add: completions_def on_transport_connected_def completions_append)
  have c2: "tid \<notin> set (connectListeners s) \<longrightarrow> on_transport_connected tid s = s"
    by (simp add: on_transport_connected_def filter_neq_id filter_eq_nil)
  have c3: "on_transport_connected tid (on_transport_connected tid s) = on_transport_connected tid s"
    by (simp add: on_transport_connected_def)
  have p1: "r \<noteq> '''' \<longrightarrow>
      completions (on_produced pid (Some r) s) =
        completions s @ map (\<lambda>l. ProduceCallback l pid) (filter (\<lambda>l. l = r) (producedListeners s))"
    by (simp add: completions_def on_produced_def completions_append accepts_token)
  have p2: "r \<noteq> '''' \<and> r \<notin> set (producedListeners s) \<longrightarrow> on_produced pid (Some r) s = s"
    by (simp add: on_produced_def accepts_token filter_neq_id filter_eq_nil)
  have p3: "on_produced pid (Some r) (on_produced pid (Some r) s) = on_produced pid (Some r) s"
    by (simp add: on_produced_def)
  have p4: "completions (on_produced pid None s) =
     completions s @ map (\<lambda>l. ProduceCallback l pid) (producedListeners s)"
    by (simp add: completions_def on_produced_def completions_append accepts_any)
  have p5: "completions (on_produced pid (Some '''') s) =
     completions s @ map (\<lambda>l. ProduceCallback l pid) (producedListeners s)"
    by (simp add: completions_def on_produced_def completions_append accepts_any)
  from c1 c2 c3 p1 p2 p3 p4 p5 show ?thesis by blast
qed

text \<open>
  The witness: an acknowledgment for the receive transport while only the send transport
  waits, and an acknowledgment with a request identifier that neither of two waiting
  publish negotiations has generated.
\<close>

theorem negotiation_ack_matching_witness:
  "''rt-1'' \<notin> set (connectListeners (on_transport_connect ''st-1'' initial_hook)) \<and>
   on_transport_connected ''rt-1'' (on_transport_connect ''st-1'' initial_hook)
     = on_transport_connect ''st-1'' initial_hook \<and>
   ''other'' \<noteq> '''' \<and> ''other'' \<notin> set (producedListeners two_publishes) \<and>
   on_produced ''prod-9'' (Some ''other'') two_publishes = two_publishes"
proof -
  have h1: "''rt-1'' \<notin> set (connectListeners (on_transport_connect ''st-1'' initial_hook))"
    by (simp add: on_transport_connect_def initial_hook_def)
  have h2: "''other'' \<noteq> ''''" by simp
  have h3: "''other'' \<notin> set (producedListeners two_publishes)"
    by (simp add: two_publishes_def on_transport_produce_def ready_hook_eval joined_hook_eval
          initial_hook_def)
  note t = negotiation_ack_matching [of "''rt-1''" "on_transport_connect ''st-1'' initial_hook"
             "''other''" "''prod-9''"]
  note u = negotiation_ack_matching [of "''rt-1''" two_publishes "''other''" "''prod-9''"]
  from t h1 have a: "on_transport_connected ''rt-1'' (on_transport_connect ''st-1'' initial_hook)
     = on_transport_connect ''st-1'' initial_hook" by blast
  from u h2 h3 have b: "on_produced ''prod-9'' (Some ''other'') two_publishes = two_publishes"
    by blast
  from h1 h2 h3 a b show ?thesis by blast
qed

section \<open>Publishing twice into one slot\<close>

lemma update_slot_single:
  "distinct (map fst xs) \<Longrightarrow> map snd (filter (\<lambda>(k, p). k = key) (AList.update key v xs)) = [v]"
proof (induction xs)
  case Nil
  show ?case by simp
next
  case (Cons x xs)
  obtain k p where x: "x = (k, p)" by (cases x)
  show ?case
  proof (cases "k = key")
    case True
    with Cons.prems x have "key \<notin> fst ` set xs" by auto
    then have "filter (\<lambda>(k, p). k = key) xs = []"
      by (force simp: filter_empty_conv)
    with True x show ?thesis by simp
  next
    case False
    with Cons x show ?thesis by simp
  qed
qed

lemma filter_head: "filter P xs = t # ys \<Longrightarrow> P t \<and> t \<in> set xs"
proof -
  assume h: "filter P xs = t # ys"
  have "t \<in> set (filter P xs)" unfolding h by simp
  then show ?thesis by simp
qed

lemma first_track_video:
  "first_track (getVideoTracks st) = Some t \<Longrightarrow> track_kind t = Video \<and> t \<in> set st"
  by (auto simp: first_track_def getVideoTracks_def split: list.splits dest: filter_head)

lemma first_track_audio:
  "first_track (getAudioTracks st) = Some t \<Longrightarrow> track_kind t = Audio \<and> t \<in> set st"
  by (auto simp: first_track_def getAudioTracks_def split: list.splits dest: filter_head)

lemma video_after_addTrack:
  "track_kind t = Video \<Longrightarrow> first_track (getVideoTracks (addTrack t ls)) \<noteq> None"
  by (auto simp: first_track_def getVideoTracks_def addTrack_def filter_empty_conv split: list.splits)

lemma audio_after_addTrack:
  "track_kind t = Audio \<Longrightarrow> first_track (getAudioTracks (addTrack t ls)) \<noteq> None"
  by (auto simp: first_track_def getAudioTracks_def addTrack_def filter_empty_conv split: list.splits)

lemma startCamera_publishes:
  assumes "sendTransportRef s \<noteq> None" and "first_track (getVideoTracks st) = Some t"
  shows "\<exists>tr ls. startCamera (Some m) (Inr st) (Some p) s =
           s\<lparr>localStreamRef := Some ls, isVideoEnabled := True,
             effects := effects s @ [TransportProduce tr None],
             producersRef := AList.update ''video'' (Producer p tr None) (producersRef s)\<rparr>"
proof (cases "localStreamRef s")
  case None
  with assms have "startCamera (Some m) (Inr st) (Some p) s =
           s\<lparr>localStreamRef := Some st, isVideoEnabled := True,
             effects := effects s @ [TransportProduce t None],
             producersRef := AList.update ''video'' (Producer p t None) (producersRef s)\<rparr>"
    by (simp add: startCamera_def produce_and_store_def Let_def)
  then show ?thesis by blast
next
  case (Some ls)
  from assms(2) have "track_kind t = Video" by (simp add: first_track_video)
  then obtain tr where "first_track (getVideoTracks (addTrack t ls)) = Some tr"
    using video_after_addTrack by blast
  with Some assms have "startCamera (Some m) (Inr st) (Some p) s =
           s\<lparr>localStreamRef := Some (addTrack t ls), isVideoEnabled := True,
             effects := effects s @ [TransportProduce tr None],
             producersRef := AList.update ''video'' (Producer p tr None) (producersRef s)\<rparr>"
    by (simp add: startCamera_def produce_and_store_def Let_def)
  then show ?thesis by blast
qed


lemma startMicrophone_publishes:
  assumes "sendTransportRef s \<noteq> None" and "first_track (getAudioTracks st) = Some t"
  shows "\<exists>tr ls. startMicrophone (Some m) (Inr st) (Some p) s =
           s\<lparr>localStreamRef := Some ls, isAudioEnabled := True,
             effects := effects s @ [TransportProduce tr None],
             producersRef := AList.update ''audio'' (Producer p tr None) (producersRef s)\<rparr>"
proof (cases "localStreamRef s")
  case None
  with assms have "startMicrophone (Some m) (Inr st) (Some p) s =
           s\<lparr>localStreamRef := Some st, isAudioEnabled := True,
             effects := effects s @ [TransportProduce t None],
             producersRef := AList.update ''audio'' (Producer p t None) (producersRef s)\<rparr>"
    by (simp add: startMicrophone_def produce_and_store_def Let_def)
  then show ?thesis by blast
next
  case (Some ls)
  from assms(2) have "track_kind t = Audio" by (simp add: first_track_audio)
  then obtain tr where "first_track (getAudioTracks (addTrack t ls)) = Some tr"
    using audio_after_addTrack by blast
  with Some assms have "startMicrophone (Some m) (Inr st) (Some p) s =
           s\<lparr>localStreamRef := Some (addTrack t ls), isAudioEnabled := True,
             effects := effects s @ [TransportProduce tr None],
             producersRef := AList.update ''audio'' (Producer p tr None) (producersRef s)\<rparr>"
    by (simp add: startMicrophone_def produce_and_store_def Let_def)
  then show ?thesis by blast
qed

lemma slot_other_update:
  "key \<noteq> k' \<Longrightarrow>
   map snd (filter (\<lambda>(k, p). k = key) (AList.update k' v xs)) = map snd (filter (\<lambda>(k, p). k = key) xs)"
  by (induction xs) auto

lemma produce_and_store_frame:
  "sendTransportRef (produce_and_store key t a outcome s) = sendTransportRef s"
  "closings (produce_and_store key t a outcome s) = closings s"
  "distinct (map fst (producersRef s)) \<Longrightarrow>
   distinct (map fst (producersRef (produce_and_store key t a outcome s)))"
  by (simp_all add: produce_and_store_def closings_def Let_def distinct_update split: option.split)

lemma produce_and_store_slot:
  "distinct (map fst (producersRef s)) \<Longrightarrow>
   slot_producers key (produce_and_store key t a (Some pid) s) = [Producer pid t a]"
  by (simp add: produce_and_store_def slot_producers_def Let_def update_slot_single)

lemma produce_and_store_other_slot:
  "key \<noteq> k' \<Longrightarrow>
   slot_producers key (produce_and_store k' t a outcome s) = slot_producers key s"
  by (simp add: produce_and_store_def slot_producers_def Let_def slot_other_update
        split: option.split)

text \<open>
  A screen share with a send transport and a capture that has a video track: the stream
  is stored, the video track is published and then, if there is one, the audio track.
\<close>

lemma startScreenShare_unfold:
  assumes "sendTransportRef s \<noteq> None" and "first_track (getVideoTracks st) = Some v"
  shows "startScreenShare (Some m) (Inr st) ov oa s =
           (case first_track (getAudioTracks st) of
              None \<Rightarrow>
                produce_and_store ''screen'' v (Some (AppData (Some ''screen''))) ov
                  (s\<lparr>screenStreamRef := Some st, isScreenSharing := True\<rparr>)
            | Some a \<Rightarrow>
                produce_and_store ''screenAudio'' a (Some (AppData (Some ''screenAudio''))) oa
                  (produce_and_store ''screen'' v (Some (AppData (Some ''screen''))) ov
                     (s\<lparr>screenStreamRef := Some st, isScreenSharing := True\<rparr>)))"
  using assms by (simp add: startScreenShare_def Let_def split: option.split)

lemma startScreenShare_frame:
  assumes "sendTransportRef s \<noteq> None" and "first_track (getVideoTracks st) = Some v"
  shows "sendTransportRef (startScreenShare (Some m) (Inr st) ov oa s) = sendTransportRef s"
    and "closings (startScreenShare (Some m) (Inr st) ov oa s) = closings s"
    and "distinct (map fst (producersRef s)) \<Longrightarrow>
         distinct (map fst (producersRef (startScreenShare (Some m) (Inr st) ov oa s)))"
proof -
  let ?s0 = "s\<lparr>screenStreamRef := Some st, isScreenSharing := True\<rparr>"
  have base: "sendTransportRef ?s0 = sendTransportRef s" "closings ?s0 = closings s"
    "producersRef ?s0 = producersRef s"
    by (simp_all add: closings_def)
  show "sendTransportRef (startScreenShare (Some m) (Inr st) ov oa s) = sendTransportRef s"
    by (simp add: startScreenShare_unfold [OF assms] produce_and_store_frame base
          split: option.split)
  show "closings (startScreenShare (Some m) (Inr st) ov oa s) = closings s"
    by (simp add: startScreenShare_unfold [OF assms] produce_and_store_frame base
          split: option.split)
  show "distinct (map fst (producersRef s)) \<Longrightarrow>
         distinct (map fst (producersRef (startScreenShare (Some m) (Inr st) ov oa s)))"
    by (simp add: startScreenShare_unfold [OF assms] produce_and_store_frame base
          split: option.split)
qed

lemma startScreenShare_video_slot:
  assumes "sendTransportRef s \<noteq> None" and "distinct (map fst (producersRef s))"
    and "first_track (getVideoTracks st) = Some v"
  shows "slot_producers ''screen'' (startScreenShare (Some m) (Inr st) (Some pv) oa s)
           = [Producer pv v (Some (AppData (Some ''screen'')))]"
proof -
  let ?s0 = "s\<lparr>screenStreamRef := Some st, isScreenSharing := True\<rparr>"
  have d: "distinct (map fst (producersRef ?s0))" using assms(2) by simp
  show ?thesis
    by (simp add: startScreenShare_unfold [OF assms(1,3)] produce_and_store_other_slot
          produce_and_store_slot [OF d] split: option.split)
qed

lemma startScreenShare_audio_slot:
  assumes "sendTransportRef s \<noteq> None" and "distinct (map fst (producersRef s))"
    and "first_track (getVideoTracks st) = Some v"
    and "first_track (getAudioTracks st) = Some a"
  shows "slot_producers ''screenAudio'' (startScreenShare (Some m) (Inr st) ov (Some pa) s)
           = [Producer pa a (Some (AppData (Some ''screenAudio'')))]"
proof -
  let ?s0 = "s\<lparr>screenStreamRef := Some st, isScreenSharing := True\<rparr>"
  let ?s1 = "produce_and_store ''screen'' v (Some (AppData (Some ''screen''))) ov ?s0"
  have "distinct (map fst (producersRef ?s0))" using assms(2) by simp
  then have d: "distinct (map fst (producersRef ?s1))"
    by (rule produce_and_store_frame(3))
  show ?thesis
    by (simp add: startScreenShare_unfold [OF assms(1,3)] assms(4) produce_and_store_slot [OF d])
qed

lemma screen_video_twice:
  assumes "sendTransportRef s \<noteq> None" and "distinct (map fst (producersRef s))"
    and "first_track (getVideoTracks scr1) = Some sv1"
    and "first_track (getVideoTracks scr2) = Some sv2"
  shows "slot_producers ''screen''
           (startScreenShare (Some m) (Inr scr2) (Some p2) oa2
              (startScreenShare (Some m) (Inr scr1) (Some p1) oa1 s))
           = [Producer p2 sv2 (Some (AppData (Some ''screen'')))] \<and>
         closings (startScreenShare (Some m) (Inr scr2) (Some p2) oa2
              (startScreenShare (Some m) (Inr scr1) (Some p1) oa1 s)) = closings s"
proof -
  let ?s1 = "startScreenShare (Some m) (Inr scr1) (Some p1) oa1 s"
  have t: "sendTransportRef ?s1 \<noteq> None"
    using assms(1) by (simp add: startScreenShare_frame(1) [OF assms(1,3)])
  have d: "distinct (map fst (producersRef ?s1))"
    using assms(2) by (rule startScreenShare_frame(3) [OF assms(1,3)])
  have c: "closings ?s1 = closings s"
    by (rule startScreenShare_frame(2) [OF assms(1,3)])
  show ?thesis
    by (simp add: startScreenShare_video_slot [OF t d assms(4)]
          startScreenShare_frame(2) [OF t assms(4)] c)
qed

lemma screen_audio_twice:
  assumes "sendTransportRef s \<noteq> None" and "distinct (map fst (producersRef s))"
    and "first_track (getVideoTracks scr1) = Some sv1"
    and "first_track (getVideoTracks scr2) = Some sv2"
    and "first_track (getAudioTracks scr1) = Some sa1"
    and "first_track (getAudioTracks scr2) = Some sa2"
  shows "slot_producers ''screenAudio''
           (startScreenShare (Some m) (Inr scr2) ov2 (Some q2)
              (startScreenShare (Some m) (Inr scr1) ov1 (Some q1) s))
           = [Producer q2 sa2 (Some (AppData (Some ''screenAudio'')))] \<and>
         closings (startScreenShare (Some m) (Inr scr2) ov2 (Some q2)
              (startScreenShare (Some m) (Inr scr1) ov1 (Some q1) s)) = closings s"
proof -
  let ?s1 = "startScreenShare (Some m) (Inr scr1) ov1 (Some q1) s"
  have t: "sendTransportRef ?s1 \<noteq> None"
    using assms(1) by (simp add: startScreenShare_frame(1) [OF assms(1,3)])
  have d: "distinct (map fst (producersRef ?s1))"
    using assms(2) by (rule startScreenShare_frame(3) [OF assms(1,3)])
  have c: "closings ?s1 = closings s"
    by (rule startScreenShare_frame(2) [OF assms(1,3)])
  show ?thesis
    by (simp add: startScreenShare_audio_slot [OF t d assms(4,6)]
          startScreenShare_frame(2) [OF t assms(4)] c)
qed

lemma camera_twice:
  assumes "sendTransportRef s \<noteq> None" and "distinct (map fst (producersRef s))"
    and "first_track (getVideoTracks cam1) = Some v1"
    and "first_track (getVideoTracks cam2) = Some v2"
  shows "map producer_id (slot_producers ''video''
           (startCamera (Some m) (Inr cam2) (Some p2)
              (startCamera (Some m) (Inr cam1) (Some p1) s))) = [p2] \<and>
         closings (startCamera (Some m) (Inr cam2) (Some p2)
              (startCamera (Some m) (Inr cam1) (Some p1) s)) = closings s"
proof -
  obtain tr1 ls1 where s1: "startCamera (Some m) (Inr cam1) (Some p1) s =
           s\<lparr>localStreamRef := Some ls1, isVideoEnabled := True,
             effects := effects s @ [TransportProduce tr1 None],
             producersRef := AList.update ''video'' (Producer p1 tr1 None) (producersRef s)\<rparr>"
    using startCamera_publishes [OF assms(1,3)] by blast
  let ?s1 = "startCamera (Some m) (Inr cam1) (Some p1) s"
  have "sendTransportRef ?s1 \<noteq> None" using assms(1) s1 by simp
  then obtain tr2 ls2 where s2: "startCamera (Some m) (Inr cam2) (Some p2) ?s1 =
           ?s1\<lparr>localStreamRef := Some ls2, isVideoEnabled := True,
             effects := effects ?s1 @ [TransportProduce tr2 None],
             producersRef := AList.update ''video'' (Producer p2 tr2 None) (producersRef ?s1)\<rparr>"
    using startCamera_publishes [OF _ assms(4)] by blast
  have d: "distinct (map fst (producersRef ?s1))"
    using assms(2) s1 by (simp add: distinct_update)
  have "slot_producers ''video'' (startCamera (Some m) (Inr cam2) (Some p2) ?s1)
          = [Producer p2 tr2 None]"
    unfolding s2 using d by (simp add: slot_producers_def update_slot_single)
  moreover have "closings (startCamera (Some m) (Inr cam2) (Some p2) ?s1) = closings s"
    unfolding s2 by (simp add: closings_def s1)
  ultimately show ?thesis by simp
qed


lemma microphone_twice:
  assumes "sendTransportRef s \<noteq> None" and "distinct (map fst (producersRef s))"
    and "first_track (getAudioTracks mic1) = Some a1"
    and "first_track (getAudioTracks mic2) = Some a2"
  shows "map producer_id (slot_producers ''audio''
           (startMicrophone (Some m) (Inr mic2) (Some p2)
              (startMicrophone (Some m) (Inr mic1) (Some p1) s))) = [p2] \<and>
         closings (startMicrophone (Some m) (Inr mic2) (Some p2)
              (startMicrophone (Some m) (Inr mic1) (Some p1) s)) = closings s"
proof -
  obtain tr1 ls1 where s1: "startMicrophone (Some m) (Inr mic1) (Some p1) s =
           s\<lparr>localStreamRef := Some ls1, isAudioEnabled := True,
             effects := effects s @ [TransportProduce tr1 None],
             producersRef := AList.update ''audio'' (Producer p1 tr1 None) (producersRef s)\<rparr>"
    using startMicrophone_publishes [OF assms(1,3)] by blast
  let ?s1 = "startMicrophone (Some m) (Inr mic1) (Some p1) s"
  have "sendTransportRef ?s1 \<noteq> None" using assms(1) s1 by simp
  then obtain tr2 ls2 where s2: "startMicrophone (Some m) (Inr mic2) (Some p2) ?s1 =
           ?s1\<lparr>localStreamRef := Some ls2, isAudioEnabled := True,
             effects := effects ?s1 @ [TransportProduce tr2 None],
             producersRef := AList.update ''audio'' (Producer p2 tr2 None) (producersRef ?s1)\<rparr>"
    using startMicrophone_publishes [OF _ assms(4)] by blast
  have d: "distinct (map fst (producersRef ?s1))"
    using assms(2) s1 by (simp add: distinct_update)
  have "slot_producers ''audio'' (startMicrophone (Some m) (Inr mic2) (Some p2) ?s1)
          = [Producer p2 tr2 None]"
    unfolding s2 using d by (simp add: slot_producers_def update_slot_single)
  moreover have "closings (startMicrophone (Some m) (Inr mic2) (Some p2) ?s1) = closings s"
    unfolding s2 by (simp add: closings_def s1)
  ultimately show ?thesis by simp
qed

text \<open>
  Claim C1, as the spec states it, asks that after two publishes into a slot the slot
  holds one producer bound to the second track, and that a close notification was sent
  for the producer of the first track. Two camera publishes on a ready hook leave one
  producer in the slot, the one the second publish created. But no \<open>close-producer\<close>
  message was emitted and no producer was closed; and the producer carries the track of
  the first capture: \<open>startCamera\<close> adds the new track to the local stream and then
  publishes the first video track of that stream.
\<close>

theorem publish_twice_counterexample:
  "closings camera_published_twice = [] \<and>
   slot_producers ''video'' camera_published_twice
     = [Producer ''prod-2'' (Track ''cam-1'' Video) None]"
  by (simp add: camera_published_twice_def ready_hook_eval joined_hook_eval initial_hook_def
        startCamera_def produce_and_store_def Let_def cam_1_def cam_2_def first_track_def
        getVideoTracks_def addTrack_def closings_def slot_producers_def)

text \<open>
  Claim C1, amended. On a hook with a send transport and a meeting (whose registry, a
  \<open>Map\<close>, has distinct keys), publishing a capture that has the slot's track and then a
  second capture that has it, both accepted by the engine, leaves the registry with
  exactly one producer for the slot, the one the second publish created, and publishing
  emits no \<open>close-producer\<close> notification and closes no producer: the producer of the first
  publish leaves the registry without being closed. This holds for the camera slot and
  the microphone slot, where nothing is said here about the track the producer carries;
  for the screen-video slot, where the producer carries the video track of the second
  capture; and for the screen-audio slot, where both captures also have a video track
  (a screen share publishes nothing without one) and the producer carries the audio
  track of the second capture.
\<close>

theorem publish_twice_replaces:
  assumes "sendTransportRef s \<noteq> None" and "distinct (map fst (producersRef s))"
  shows
    "(first_track (getVideoTracks cam1) = Some v1 \<and> first_track (getVideoTracks cam2) = Some v2 \<longrightarrow>
        map producer_id (slot_producers ''video''
           (startCamera (Some m) (Inr cam2) (Some p2)
              (startCamera (Some m) (Inr cam1) (Some p1) s))) = [p2] \<and>
        closings (startCamera (Some m) (Inr cam2) (Some p2)
              (startCamera (Some m) (Inr cam1) (Some p1) s)) = closings s) \<and>
     (first_track (getAudioTracks mic1) = Some a1 \<and> first_track (getAudioTracks mic2) = Some a2 \<longrightarrow>
        map producer_id (slot_producers ''audio''
           (startMicrophone (Some m) (Inr mic2) (Some p2)
              (startMicrophone (Some m) (Inr mic1) (Some p1) s))) = [p2] \<and>
        closings (startMicrophone (Some m) (Inr mic2) (Some p2)
              (startMicrophone (Some m) (Inr mic1) (Some p1) s)) = closings s) \<and>
     (first_track (getVideoTracks scr1) = Some sv1 \<and> first_track (getVideoTracks scr2) = Some sv2 \<longrightarrow>
        slot_producers ''screen''
           (startScreenShare (Some m) (Inr scr2) (Some p2) oa2
              (startScreenShare (Some m) (Inr scr1) (Some p1) oa1 s))
           = [Producer p2 sv2 (Some (AppData (Some ''screen'')))] \<and>
        closings (startScreenShare (Some m) (Inr scr2) (Some p2) oa2
              (startScreenShare (Some m) (Inr scr1) (Some p1) oa1 s)) = closings s) \<and>
     (first_track (getVideoTracks scr1) = Some sv1 \<and> first_track (getVideoTracks scr2) = Some sv2 \<and>
      first_track (getAudioTracks scr1) = Some sa1 \<and> first_track (getAudioTracks scr2) = Some sa2 \<longrightarrow>
        slot_producers ''screenAudio''
           (startScreenShare (Some m) (Inr scr2) ov2 (Some q2)
              (startScreenShare (Some m) (Inr scr1) ov1 (Some q1) s))
           = [Producer q2 sa2 (Some (AppData (Some ''screenAudio'')))] \<and>
        closings (startScreenShare (Some m) (Inr scr2) ov2 (Some q2)
              (startScreenShare (Some m) (Inr scr1) ov1 (Some q1) s)) = closings s)"
proof -
  have cam: "first_track (getVideoTracks cam1) = Some v1 \<and> first_track (getVideoTracks cam2) = Some v2 \<longrightarrow>
        map producer_id (slot_producers ''video''
           (startCamera (Some m) (Inr cam2) (Some p2)
              (startCamera (Some m) (Inr cam1) (Some p1) s))) = [p2] \<and>
        closings (startCamera (Some m) (Inr cam2) (Some p2)
              (startCamera (Some m) (Inr cam1) (Some p1) s)) = closings s"
    using camera_twice [OF assms] by blast
  have mic: "first_track (getAudioTracks mic1) = Some a1 \<and> first_track (getAudioTracks mic2) = Some a2 \<longrightarrow>
        map producer_id (slot_producers ''audio''
           (startMicrophone (Some m) (Inr mic2) (Some p2)
              (startMicrophone (Some m) (Inr mic1) (Some p1) s))) = [p2] \<and>
        closings (startMicrophone (Some m) (Inr mic2) (Some p2)
              (startMicrophone (Some m) (Inr mic1) (Some p1) s)) = closings s"
    using microphone_twice [OF assms] by blast
  have scr: "first_track (getVideoTracks scr1) = Some sv1 \<and> first_track (getVideoTracks scr2) = Some sv2 \<longrightarrow>
        slot_producers ''screen''
           (startScreenShare (Some m) (Inr scr2) (Some p2) oa2
              (startScreenShare (Some m) (Inr scr1) (Some p1) oa1 s))
           = [Producer p2 sv2 (Some (AppData (Some ''screen'')))] \<and>
        closings (startScreenShare (Some m) (Inr scr2) (Some p2) oa2
              (startScreenShare (Some m) (Inr scr1) (Some p1) oa1 s)) = closings s"
    using screen_video_twice [OF assms] by blast
  have aud: "first_track (getVideoTracks scr1) = Some sv1 \<and> first_track (getVideoTracks scr2) = Some sv2 \<and>
      first_track (getAudioTracks scr1) = Some sa1 \<and> first_track (getAudioTracks scr2) = Some sa2 \<longrightarrow>
        slot_producers ''screenAudio''
           (startScreenShare (Some m) (Inr scr2) ov2 (Some q2)
              (startScreenShare (Some m) (Inr scr1) ov1 (Some q1) s))
           = [Producer q2 sa2 (Some (AppData (Some ''screenAudio'')))] \<and>
        closings (startScreenShare (Some m) (Inr scr2) ov2 (Some q2)
              (startScreenShare (Some m) (Inr scr1) ov1 (Some q1) s)) = closings s"
    using screen_audio_twice [OF assms] by blast
  from cam mic scr aud show ?thesis by blast
qed

text \<open>
  The witness: two captures of each kind, published on a ready hook; the second screen
  share is published although the engine rejects the audio track of the first.
\<close>

theorem publish_twice_replaces_witness:
  "sendTransportRef ready_hook \<noteq> None \<and> distinct (map fst (producersRef ready_hook)) \<and>
   first_track (getVideoTracks cam_1) = Some (Track ''cam-1'' Video) \<and>
   first_track (getVideoTracks cam_2) = Some (Track ''cam-2'' Video) \<and>
   first_track (getAudioTracks mic_1) = Some (Track ''mic-1'' Audio) \<and>
   first_track (getAudioTracks mic_2) = Some (Track ''mic-2'' Audio) \<and>
   first_track (getVideoTracks scr_1) = Some (Track ''scr-1'' Video) \<and>
   first_track (getAudioTracks scr_1) = Some (Track ''tab-1'' Audio) \<and>
   first_track (getVideoTracks scr_2) = Some (Track ''scr-2'' Video) \<and>
   first_track (getAudioTracks scr_2) = Some (Track ''tab-2'' Audio) \<and>
   map producer_id (slot_producers ''video'' camera_published_twice) = [''prod-2''] \<and>
   closings camera_published_twice = closings ready_hook \<and>
   map producer_id (slot_producers ''audio''
     (startMicrophone (Some ''m-1'') (Inr mic_2) (Some ''prod-2'')
        (startMicrophone (Some ''m-1'') (Inr mic_1) (Some ''prod-1'') ready_hook))) = [''prod-2''] \<and>
   slot_producers ''screen''
     (startScreenShare (Some ''m-1'') (Inr scr_2) (Some ''prod-2'') (Some ''prod-4'')
        (startScreenShare (Some ''m-1'') (Inr scr_1) (Some ''prod-1'') None ready_hook))
     = [Producer ''prod-2'' (Track ''scr-2'' Video) (Some (AppData (Some ''screen'')))] \<and>
   slot_producers ''screenAudio''
     (startScreenShare (Some ''m-1'') (Inr scr_2) (Some ''prod-2'') (Some ''prod-4'')
        (startScreenShare (Some ''m-1'') (Inr scr_1) (Some ''prod-1'') (Some ''prod-3'') ready_hook))
     = [Producer ''prod-4'' (Track ''tab-2'' Audio) (Some (AppData (Some ''screenAudio'')))]"
proof -
  have h1: "sendTransportRef ready_hook \<noteq> None"
    and h2: "distinct (map fst (producersRef ready_hook))"
    by (simp_all add: ready_hook_eval joined_hook_eval initial_hook_def)
  have h3: "first_track (getVideoTracks cam_1) = Some (Track ''cam-1'' Video)"
    and h4: "first_track (getVideoTracks cam_2) = Some (Track ''cam-2'' Video)"
    and h5: "first_track (getAudioTracks mic_1) = Some (Track ''mic-1'' Audio)"
    and h6: "first_track (getAudioTracks mic_2) = Some (Track ''mic-2'' Audio)"
    and h7: "first_track (getVideoTracks scr_1) = Some (Track ''scr-1'' Video)"
    and h8: "first_track (getAudioTracks scr_1) = Some (Track ''tab-1'' Audio)"
    and h9: "first_track (getVideoTracks scr_2) = Some (Track ''scr-2'' Video)"
    and h10: "first_track (getAudioTracks scr_2) = Some (Track ''tab-2'' Audio)"
    by (simp_all add: first_track_def getVideoTracks_def getAudioTracks_def cam_1_def cam_2_def
          mic_1_def mic_2_def scr_1_def scr_2_def)
  note t = publish_twice_replaces [OF h1 h2, of cam_1 "Track ''cam-1'' Video" cam_2
             "Track ''cam-2'' Video" "''m-1''" "''prod-2''" "''prod-1''"
             mic_1 "Track ''mic-1'' Audio" mic_2 "Track ''mic-2'' Audio"
             scr_1 "Track ''scr-1'' Video" scr_2 "Track ''scr-2'' Video"
             "Some ''prod-4''" None "Track ''tab-1'' Audio" "Track ''tab-2'' Audio"
             "Some ''prod-2''" "''prod-4''" "Some ''prod-1''" "''prod-3''"]
  from t h1 h2 h3 h4 h5 h6 h7 h8 h9 h10 show ?thesis
    unfolding camera_published_twice_def by blast
qed

section \<open>Calls and admission in the application component\<close>

lemma log_frame:
  "currentMeeting (log l s) = currentMeeting s" "shouldAutoJoin (log l s) = shouldAutoJoin s"
  "isWaiting (log l s) = isWaiting s" "calls (log l s) = calls s"
  "isInCall (log l s) = isInCall s" "activeCallId (log l s) = activeCallId s"
  "calleeId (log l s) = calleeId s" "meetingCode (log l s) = meetingCode s"
  by (simp_all add: log_def)

lemma call_frame:
  "currentMeeting (call c s) = currentMeeting s" "shouldAutoJoin (call c s) = shouldAutoJoin s"
  "isWaiting (call c s) = isWaiting s" "calls (call c s) = calls s @ [c]"
  "isInCall (call c s) = isInCall s" "activeCallId (call c s) = activeCallId s"
  "logs (call c s) = logs s"
  by (simp_all add: call_def)

lemma quiescent_iff:
  "autoJoinEffect s = s \<longleftrightarrow> (currentMeeting s = None \<or> \<not> shouldAutoJoin s \<or> isWaiting s)"
proof (cases "currentMeeting s")
  case None
  then show ?thesis by (simp add: autoJoinEffect_def)
next
  case (Some m)
  show ?thesis
  proof (cases "shouldAutoJoin s \<and> \<not> isWaiting s")
    case True
    then have "calls (autoJoinEffect s) = calls s @ [WebRTCJoin m]"
      using Some by (simp add: autoJoinEffect_def call_frame log_frame)
    then have "autoJoinEffect s \<noteq> s" by auto
    with True Some show ?thesis by simp
  next
    case False
    with Some show ?thesis by (auto simp: autoJoinEffect_def)
  qed
qed

lemma handleInitiateCall_frame:
  "currentMeeting (handleInitiateCall type result s) = currentMeeting s \<and>
   shouldAutoJoin (handleInitiateCall type result s) = shouldAutoJoin s \<and>
   isWaiting (handleInitiateCall type result s) = isWaiting s \<and>
   isInCall (handleInitiateCall type result s) = isInCall s \<and>
   joins (handleInitiateCall type result s) = joins s"
  by (simp add: handleInitiateCall_def Let_def log_frame call_frame joins_def split: option.split)

lemma autoJoin_fires:
  "currentMeeting s = Some m \<Longrightarrow> shouldAutoJoin s \<Longrightarrow> \<not> isWaiting s \<Longrightarrow>
   joins (autoJoinEffect s) = joins s @ [WebRTCJoin m]"
  by (simp add: autoJoinEffect_def joins_def call_frame log_frame)

lemma no_transport_no_traffic:
  assumes "sendTransportRef h = None"
  shows "effects (startCamera mt capC outC h) = effects h"
    and "effects (startMicrophone mt capM outM h) = effects h"
    and "effects (startScreenShare mt capS outV outA h) = effects h"
    and "producersRef (startCamera mt capC outC h) = producersRef h"
    and "producersRef (startMicrophone mt capM outM h) = producersRef h"
    and "producersRef (startScreenShare mt capS outV outA h) = producersRef h"
  using assms
  by (simp_all add: startCamera_def startMicrophone_def startScreenShare_def Let_def
        split: sum.split option.split)

text \<open>
  What initiating a call does on its own. In a state where no join is pending,
  \<open>handleInitiateCall\<close> causes no call of \<open>webRTCJoin\<close>, neither by the handler nor by the
  effect that runs after it, and no join is pending afterwards: it leaves the meeting
  and the in-call flag as they were and records the call identifier when the request
  succeeded. The join happens when \<open>call-accepted\<close> arrives next with a meeting that can be
  fetched (and the user is not in a waiting room). Without a send transport, starting
  the camera, the microphone or a screen share calls neither the engine nor the socket.
\<close>

lemma initiate_call_no_join:
  assumes "autoJoinEffect s = s"
  shows "joins (autoJoinEffect (handleInitiateCall type result s)) = joins s \<and>
         autoJoinEffect (handleInitiateCall type result s) = handleInitiateCall type result s \<and>
         currentMeeting (autoJoinEffect (handleInitiateCall type result s)) = currentMeeting s \<and>
         isInCall (autoJoinEffect (handleInitiateCall type result s)) = isInCall s \<and>
         (\<not> is_blank (calleeId s) \<and> success result \<and> data result = Some c \<longrightarrow>
            activeCallId (autoJoinEffect (handleInitiateCall type result s)) = Some (callId c)) \<and>
         (\<not> isWaiting s \<and> meetingId a \<noteq> '''' \<and> success meetingResult \<and> data meetingResult = Some m \<longrightarrow>
            joins (autoJoinEffect (on_call_accepted a meetingResult
                     (autoJoinEffect (handleInitiateCall type result s))))
              = joins s @ [WebRTCJoin m]) \<and>
         (sendTransportRef h = None \<longrightarrow>
            effects (startCamera mt capC outC h) = effects h \<and>
            effects (startMicrophone mt capM outM h) = effects h \<and>
            effects (startScreenShare mt capS outV outA h) = effects h)"
proof -
  let ?s1 = "handleInitiateCall type result s"
  have frame: "currentMeeting ?s1 = currentMeeting s" "shouldAutoJoin ?s1 = shouldAutoJoin s"
    "isWaiting ?s1 = isWaiting s" "isInCall ?s1 = isInCall s" "joins ?s1 = joins s"
    using handleInitiateCall_frame [of type result s] by simp_all
  from assms have "currentMeeting s = None \<or> \<not> shouldAutoJoin s \<or> isWaiting s"
    by (simp add: quiescent_iff)
  with frame have q: "autoJoinEffect ?s1 = ?s1"
    by (simp add: quiescent_iff)
  have act: "\<not> is_blank (calleeId s) \<and> success result \<and> data result = Some c \<longrightarrow>
            activeCallId ?s1 = Some (callId c)"
    by (simp add: handleInitiateCall_def Let_def log_def call_def)
  have acc: "\<not> isWaiting s \<and> meetingId a \<noteq> '''' \<and> success meetingResult \<and> data meetingResult = Some m \<longrightarrow>
            joins (autoJoinEffect (on_call_accepted a meetingResult ?s1)) = joins s @ [WebRTCJoin m]"
  proof (intro impI, elim conjE)
    assume h: "\<not> isWaiting s" "meetingId a \<noteq> ''''" "success meetingResult" "data meetingResult = Some m"
    let ?s2 = "on_call_accepted a meetingResult ?s1"
    from h have "currentMeeting ?s2 = Some m" "shouldAutoJoin ?s2" "\<not> isWaiting ?s2"
      "joins ?s2 = joins ?s1"
      using frame by (simp_all add: on_call_accepted_def Let_def log_frame call_frame joins_def log_def call_def)
    then show "joins (autoJoinEffect ?s2) = joins s @ [WebRTCJoin m]"
      using frame by (simp add: autoJoin_fires)
  qed
  from q frame act acc show ?thesis
    by (simp add: no_transport_no_traffic)
qed

text \<open>
  Claim C3 asks that no media join happens between initiating a call and its acceptance.
  The handler of the call says so itself ("DON'T set isInCall or join WebRTC yet! Wait
  for call-accepted event before joining") and keeps to it. The handler of the
  connection test does not: it takes over whatever call the server reports as active,
  without a look at its status. A caller initiates a call, and no join follows. While
  the call rings the caller presses the connection test, and the server reports the call
  just initiated, with the status \<open>ringing\<close>: the component sets the in-call flag, fetches
  the meeting of the call and joins its media session, before any \<open>call-accepted\<close>.
\<close>

theorem connection_test_joins_ringing_call:
  "joins ringing_app = [] \<and>
   activeCallId ringing_app = Some ''call-1'' \<and>
   \<not> isInCall ringing_app \<and>
   joins tested_while_ringing = [WebRTCJoin room_a] \<and>
   isInCall tested_while_ringing \<and>
   callStatus tested_while_ringing = ''In call - ringing''"
  by (simp add: tested_while_ringing_def ringing_app_def handleTestConnection_def
        handleInitiateCall_def autoJoinEffect_def Let_def log_def call_def joins_def
        caller_app_def initial_app_def call_initiated_def call_1_def api_ok_def no_meetings_def
        ringing_call_def room_found_def status_name_def is_blank_def is_space_def units_def)

lemma autoJoin_fires_requests:
  "admission_requests (autoJoinEffect s) = admission_requests s"
  "isWaiting (autoJoinEffect s) = isWaiting s"
  by (simp_all add: autoJoinEffect_def admission_requests_def call_frame log_frame split: option.split)

text \<open>
  Claim C7, as the spec states it, asks that a failed admission check never leads to an
  automatic join. A guest joins by code, the admission check fails with a network error:
  the media session is joined, the guest is not waiting, no admission was requested and
  the three lines logged report no error.
\<close>

theorem admission_check_failure_counterexample:
  "joins (autoJoinEffect (handleJoinMeeting join_ok failed_check unused_admission guest_app))
     = [WebRTCJoin room_a] \<and>
   \<not> isWaiting (autoJoinEffect (handleJoinMeeting join_ok failed_check unused_admission guest_app)) \<and>
   admission_requests (autoJoinEffect (handleJoinMeeting join_ok failed_check unused_admission guest_app))
     = [] \<and>
   logs (autoJoinEffect (handleJoinMeeting join_ok failed_check unused_admission guest_app))
     = [units ''Joining meeting abc-defg...'', units ''Joined meeting: abc-defg'',
        units ''Auto-joining WebRTC...'']"
  by (simp add: handleJoinMeeting_def autoJoinEffect_def Let_def log_def call_def joins_def
        admission_requests_def join_ok_def failed_check_def guest_app_def initial_app_def
        room_a_def is_blank_def is_space_def units_def)

text \<open>
  Claim C7, amended. Take a guest who has typed a meeting code that is not blank, who is
  not in a waiting room and for whom no join is pending, and whose join request
  succeeds with permission to join. When the admission check then fails, returns an
  error or answers that no admission is required, the handler does exactly what it does
  for the answer "not required": it requests no admission, it leaves the guest outside
  the waiting room, it logs the two lines of a successful join and no error, and it sets
  the auto-join flag, so that the effect logs its line and calls \<open>webRTCJoin\<close> once for the
  meeting. Only the answer "required" of a successful check leads to the waiting room.
\<close>

theorem admission_check_failure_auto_joins:
  assumes "\<not> is_blank (meetingCode s)"
    and "success result" and "data result = Some d" and "canJoin d"
    and "\<not> (success admissionCheck \<and> data admissionCheck = Some True)"
    and "\<not> shouldAutoJoin s" and "\<not> isWaiting s"
  shows "joins (autoJoinEffect (handleJoinMeeting result admissionCheck admissionResult s))
           = joins s @ [WebRTCJoin (jd_meeting d)] \<and>
         admission_requests (autoJoinEffect (handleJoinMeeting result admissionCheck admissionResult s))
           = admission_requests s \<and>
         \<not> isWaiting (autoJoinEffect (handleJoinMeeting result admissionCheck admissionResult s)) \<and>
         waitingPosition (autoJoinEffect (handleJoinMeeting result admissionCheck admissionResult s))
           = waitingPosition s \<and>
         logs (autoJoinEffect (handleJoinMeeting result admissionCheck admissionResult s))
           = logs (log (units ''Auto-joining WebRTC...'')
                    (log (units (''Joined meeting: '' @ meeting_code (jd_meeting d)))
                       (log (units ''Joining meeting '' @ meetingCode s @ units ''...'') s))) \<and>
         handleJoinMeeting result admissionCheck admissionResult s
           = handleJoinMeeting result \<lparr>success = True, data = Some False, api_error = None\<rparr>
               admissionResult s"
proof -
  let ?m = "jd_meeting d"
  let ?s5 = "call (ApiCheckAdmissionRequired (meeting_id ?m))
              ((log (units (''Joined meeting: '' @ meeting_code ?m))
                 (call (ApiJoinMeeting (meetingCode s))
                    (log (units ''Joining meeting '' @ meetingCode s @ units ''...'') s)))
               \<lparr>currentMeeting := Some ?m, showJoinDialog := False\<rparr>)"
  let ?h = "?s5\<lparr>shouldAutoJoin := True\<rparr>"
  have s5: "\<not> shouldAutoJoin ?s5" "\<not> isWaiting ?s5" "currentMeeting ?s5 = Some ?m"
    using assms(6,7) by (simp_all add: log_def call_def)
  then have q: "autoJoinEffect ?s5 = ?s5"
    by (simp add: autoJoinEffect_def)
  have h: "handleJoinMeeting result admissionCheck admissionResult s = ?h"
    using assms(1-5) q by (auto simp: handleJoinMeeting_def Let_def)
  have h': "handleJoinMeeting result \<lparr>success = True, data = Some False, api_error = None\<rparr>
               admissionResult s = ?h"
    using assms(1-4) q by (auto simp: handleJoinMeeting_def Let_def)
  have fired: "autoJoinEffect ?h =
                 (call (WebRTCJoin ?m) (log (units ''Auto-joining WebRTC...'') ?h))
                   \<lparr>shouldAutoJoin := False\<rparr>"
    using assms(7) by (simp add: autoJoinEffect_def log_def call_def)
  have j: "joins (autoJoinEffect ?h) = joins s @ [WebRTCJoin ?m]"
    unfolding fired by (simp add: joins_def log_def call_def)
  have a: "admission_requests (autoJoinEffect ?h) = admission_requests s"
    unfolding fired by (simp add: admission_requests_def log_def call_def)
  have w: "\<not> isWaiting (autoJoinEffect ?h)"
    unfolding fired using assms(7) by (simp add: log_def call_def)
  have p: "waitingPosition (autoJoinEffect ?h) = waitingPosition s"
    unfolding fired by (simp add: log_def call_def)
  have l: "logs (autoJoinEffect ?h)
           = logs (log (units ''Auto-joining WebRTC...'')
                    (log (units (''Joined meeting: '' @ meeting_code ?m))
                       (log (units ''Joining meeting '' @ meetingCode s @ units ''...'') s)))"
    unfolding fired by (simp add: log_def call_def)
  from h h' j a w p l show ?thesis by simp
qed

text \<open>
  The witness: the guest and the failed admission check of the scenario above.
\<close>

theorem admission_check_failure_auto_joins_witness:
  "\<not> is_blank (meetingCode guest_app) \<and> success join_ok \<and>
   data join_ok = Some \<lparr>jd_meeting = room_a, canJoin = True, joinError = None\<rparr> \<and>
   canJoin \<lparr>jd_meeting = room_a, canJoin = True, joinError = None\<rparr> \<and>
   \<not> (success failed_check \<and> data failed_check = Some True) \<and>
   \<not> shouldAutoJoin guest_app \<and> \<not> isWaiting guest_app \<and>
   joins (autoJoinEffect (handleJoinMeeting join_ok failed_check unused_admission guest_app))
     = joins guest_app @ [WebRTCJoin room_a]"
proof -
  have h1: "\<not> is_blank (meetingCode guest_app)"
    by (simp add: guest_app_def initial_app_def is_blank_def is_space_def units_def)
  have h2: "success join_ok"
    and h3: "data join_ok = Some \<lparr>jd_meeting = room_a, canJoin = True, joinError = None\<rparr>"
    by (simp_all add: join_ok_def)
  have h4: "canJoin \<lparr>jd_meeting = room_a, canJoin = True, joinError = None\<rparr>"
    by simp
  have h5: "\<not> (success failed_check \<and> data failed_check = Some True)"
    by (simp add: failed_check_def)
  have h6: "\<not> shouldAutoJoin guest_app" and h7: "\<not> isWaiting guest_app"
    by (simp_all add: guest_app_def initial_app_def)
  have "joins (autoJoinEffect (handleJoinMeeting join_ok failed_check unused_admission guest_app))
     = joins guest_app @ [WebRTCJoin (jd_meeting \<lparr>jd_meeting = room_a, canJoin = True, joinError = None\<rparr>)]"
    by (rule conjunct1 [OF admission_check_failure_auto_joins [OF h1 h2 h3 h4 h5 h6 h7]])
  then have "joins (autoJoinEffect (handleJoinMeeting join_ok failed_check unused_admission guest_app))
     = joins guest_app @ [WebRTCJoin room_a]"
    by simp
  with h1 h2 h3 h4 h5 h6 h7 show ?thesis by blast
qed

end
